theory Spec2Isabelle
  imports Main "HOL-Library.Sublist" "HOL-Library.Extended_Nat"
begin

section \<open>JavaScript strings\<close>

text \<open>
  A JavaScript string is a sequence of UTF-16 code units. The model covers the strings
  whose code units all lie below 256 (Latin-1): one \<^typ>\<open>char\<close> per code unit, so that
  \<open>length\<close> is \<open>.length\<close>. On that range \<open>toLowerCase\<close> maps \<open>A\<close>-\<open>Z\<close> and the
  accented capitals \<open>0xC0\<close>-\<open>0xDE\<close> (without the multiplication sign \<open>0xD7\<close>) to the
  code unit 32 above, and leaves every other code unit alone.
\<close>

definition toLowerChar :: "char \<Rightarrow> char" where
  "toLowerChar c =
     (let n = (of_char c :: nat)
      in if (65 \<le> n \<and> n \<le> 90) \<or> (192 \<le> n \<and> n \<le> 222 \<and> n \<noteq> 215)
         then char_of (n + 32) else c)"

definition toLowerCase :: "string \<Rightarrow> string" where
  "toLowerCase s = map toLowerChar s"

text \<open>\<open>s.startsWith(p)\<close>, \<open>s.endsWith(p)\<close>, \<open>s.includes(p)\<close> (named \<open>includes_str\<close>) and \<open>s.indexOf(p)\<close>
  (\<open>None\<close> for the source's \<open>-1\<close>).\<close>

fun startsWith :: "string \<Rightarrow> string \<Rightarrow> bool" where
  "startsWith s [] = True"
| "startsWith [] (p # ps) = False"
| "startsWith (c # cs) (p # ps) = (c = p \<and> startsWith cs ps)"

definition endsWith :: "string \<Rightarrow> string \<Rightarrow> bool" where
  "endsWith s p = startsWith (rev s) (rev p)"

fun includes_str :: "string \<Rightarrow> string \<Rightarrow> bool" where
  "includes_str [] p = (p = [])"
| "includes_str (c # cs) p = (startsWith (c # cs) p \<or> includes_str cs p)"

fun indexOf :: "string \<Rightarrow> string \<Rightarrow> nat option" where
  "indexOf [] p = (if p = [] then Some 0 else None)"
| "indexOf (c # cs) p =
     (if startsWith (c # cs) p then Some 0 else map_option Suc (indexOf cs p))"

text \<open>The white space of \<open>trim()\<close> and of the regular expression class \<open>\s\<close>, below 256:
  tab, line feed, vertical tab, form feed, carriage return, space and no-break space.\<close>

definition isSpace :: "char \<Rightarrow> bool" where
  "isSpace c = ((of_char c :: nat) \<in> {9, 10, 11, 12, 13, 32, 160})"

definition trim :: "string \<Rightarrow> string" where
  "trim s = rev (dropWhile isSpace (rev (dropWhile isSpace s)))"

text \<open>\<open>s.split(re)\<close> for a regular expression \<open>re\<close> that matches exactly one code unit
  (a character class): the pieces between the separators, empty pieces included;
  the empty string splits into one empty piece.\<close>

fun splitWhen :: "(char \<Rightarrow> bool) \<Rightarrow> string \<Rightarrow> string list" where
  "splitWhen P [] = [[]]"
| "splitWhen P (c # cs) =
     (if P c then [] # splitWhen P cs
      else (case splitWhen P cs of
              [] \<Rightarrow> [[c]]
            | w # ws \<Rightarrow> (c # w) # ws))"

text \<open>\<open>s.split(/\W+/)\<close>: the pieces between the maximal runs of code units that
  satisfy \<open>P\<close>, empty pieces at both ends included.\<close>

fun splitRuns :: "(char \<Rightarrow> bool) \<Rightarrow> string \<Rightarrow> string list" where
  "splitRuns P [] = [[]]"
| "splitRuns P (c # cs) =
     (if P c
      then (case cs of
              [] \<Rightarrow> [[], []]
            | c' # _ \<Rightarrow> (if P c' then splitRuns P cs else [] # splitRuns P cs))
      else (case splitRuns P cs of
              [] \<Rightarrow> [[c]]
            | w # ws \<Rightarrow> (c # w) # ws))"

text \<open>The character classes \<open>[a-z0-9]\<close>, \<open>[a-z0-9]\<close> with the flag \<open>i\<close>, and \<open>\w\<close>.\<close>

definition isLowerAlnum :: "char \<Rightarrow> bool" where
  "isLowerAlnum c =
     (let n = (of_char c :: nat) in (97 \<le> n \<and> n \<le> 122) \<or> (48 \<le> n \<and> n \<le> 57))"

definition isAlnum :: "char \<Rightarrow> bool" where
  "isAlnum c = (isLowerAlnum c \<or> (let n = (of_char c :: nat) in 65 \<le> n \<and> n \<le> 90))"

definition isWordChar :: "char \<Rightarrow> bool" where
  "isWordChar c = (isAlnum c \<or> c = CHR ''_'')"

text \<open>\<open>s.replace(/^p/, "")\<close> and \<open>s.replace(/p$/, "")\<close> for a literal \<open>p\<close>.\<close>

definition removePrefix :: "string \<Rightarrow> string \<Rightarrow> string" where
  "removePrefix p s = (if startsWith s p then drop (length p) s else s)"

definition removeSuffix :: "string \<Rightarrow> string \<Rightarrow> string" where
  "removeSuffix p s = (if endsWith s p then take (length s - length p) s else s)"

text \<open>\<open>s.replace(/\.(md|yaml)$/, "")\<close>.\<close>

definition removeExtension :: "string \<Rightarrow> string" where
  "removeExtension s =
     (if endsWith s ''.md'' then removeSuffix ''.md'' s else removeSuffix ''.yaml'' s)"

section \<open>The Record model (\<open>DocItem\<close>, data-fetcher.ts)\<close>

datatype item_type =
    TClass | TService | TTutorial | TGuide | TReference | TEnum | TGlobal
  | TProperty | TMethod | TEvent | TCallback | TFunction

fun typeString :: "item_type \<Rightarrow> string" where
  "typeString TClass = ''class''"
| "typeString TService = ''service''"
| "typeString TTutorial = ''tutorial''"
| "typeString TGuide = ''guide''"
| "typeString TReference = ''reference''"
| "typeString TEnum = ''enum''"
| "typeString TGlobal = ''global''"
| "typeString TProperty = ''property''"
| "typeString TMethod = ''method''"
| "typeString TEvent = ''event''"
| "typeString TCallback = ''callback''"
| "typeString TFunction = ''function''"

text \<open>Every field of the source's \<open>DocItem\<close> carries the prefix \<open>doc_\<close> here
  (\<open>id\<close> is \<open>doc_id\<close>, \<open>title\<close> is \<open>doc_title\<close>, and so on).\<close>

record DocItem =
  doc_id :: string
  doc_title :: string
  doc_description :: string
  doc_url :: string
  doc_category :: string
  doc_keywords :: "string list"
  doc_type :: item_type

section \<open>The search ranker (\<open>filteredDocs\<close>, creator-docs.tsx)\<close>

definition MAX_DISPLAYED_RESULTS :: nat where
  "MAX_DISPLAYED_RESULTS = 50"

definition isSeparator :: "char \<Rightarrow> bool" where
  "isSeparator c = (c = CHR '':'' \<or> c = CHR ''.'')"

text \<open>
  \<^verbatim>\<open>titleLower.includes(":") || titleLower.includes(".")
     ? titleLower.split(/[:.]/)[1] || titleLower : titleLower\<close>
  Index 1 of the split is its second piece; an empty piece is falsy and gives the
  whole title.
\<close>

definition titlePart :: "string \<Rightarrow> string" where
  "titlePart titleLower =
     (if includes_str titleLower '':'' \<or> includes_str titleLower ''.''
      then (case splitWhen isSeparator titleLower of
              _ # seg # _ \<Rightarrow> (if seg = [] then titleLower else seg)
            | _ \<Rightarrow> titleLower)
      else titleLower)"

definition matchScore :: "string \<Rightarrow> string \<Rightarrow> int" where
  "matchScore titleLower searchLower =
     (if titleLower = searchLower \<or> titlePart titleLower = searchLower then 1000
      else if startsWith titleLower searchLower then 500
      else 250)"

definition categoryMultiplier :: "DocItem \<Rightarrow> int" where
  "categoryMultiplier d =
     (let isClassEntry = (doc_category d = ''Classes'');
          isMainClass = (isClassEntry \<and> (doc_type d = TClass \<or> doc_type d = TService))
      in if isMainClass then 10 else if isClassEntry then 8 else 1)"

text \<open>The four fallback fields that are looked at when the title does not match.\<close>

definition descriptionMatch :: "string \<Rightarrow> DocItem \<Rightarrow> bool" where
  "descriptionMatch searchLower d = includes_str (toLowerCase (doc_description d)) searchLower"

definition keywordMatch :: "string \<Rightarrow> DocItem \<Rightarrow> bool" where
  "keywordMatch searchLower d =
     list_ex (\<lambda>keyword. includes_str (toLowerCase keyword) searchLower) (doc_keywords d)"

definition categoryMatch :: "string \<Rightarrow> DocItem \<Rightarrow> bool" where
  "categoryMatch searchLower d = includes_str (toLowerCase (doc_category d)) searchLower"

definition typeMatch :: "string \<Rightarrow> DocItem \<Rightarrow> bool" where
  "typeMatch searchLower d = includes_str (toLowerCase (typeString (doc_type d))) searchLower"

text \<open>One turn of the loop over \<open>allDocs\<close>: \<open>None\<close> is the \<open>continue\<close> of a Record
  that matches nowhere, \<open>Some\<close> the score pushed onto \<open>results\<close>.\<close>

definition scoreDoc :: "string \<Rightarrow> DocItem \<Rightarrow> int option" where
  "scoreDoc searchLower d =
     (let titleLower = toLowerCase (doc_title d)
      in if \<not> includes_str titleLower searchLower
         then (if \<not> descriptionMatch searchLower d \<and> \<not> keywordMatch searchLower d
                  \<and> \<not> categoryMatch searchLower d \<and> \<not> typeMatch searchLower d
               then None
               else Some ((if descriptionMatch searchLower d then 100
                           else if keywordMatch searchLower d then 75 else 50)
                          * (if doc_category d = ''Classes'' then 8 else 1)))
         else Some (matchScore titleLower searchLower * categoryMultiplier d
                    - int (length (doc_title d))))"

record scored =
  doc :: DocItem
  score :: int

fun collectResults :: "string \<Rightarrow> DocItem list \<Rightarrow> scored list" where
  "collectResults searchLower [] = []"
| "collectResults searchLower (d # ds) =
     (case scoreDoc searchLower d of
        None \<Rightarrow> collectResults searchLower ds
      | Some s \<Rightarrow> \<lparr>doc = d, score = s\<rparr> # collectResults searchLower ds)"

text \<open>\<open>results.sort((a, b) => b.score - a.score)\<close>: descending by score; the sort of
  the JavaScript engine is stable, as the insertion sort \<open>sort_key\<close> is.\<close>

definition sortResults :: "scored list \<Rightarrow> scored list" where
  "sortResults results = sort_key (\<lambda>r. - score r) results"

text \<open>\<open>xs.slice(0, limit)\<close>, where the limit may be \<open>Infinity\<close>.\<close>

definition slice0 :: "enat \<Rightarrow> 'a list \<Rightarrow> 'a list" where
  "slice0 limit xs = (case limit of enat n \<Rightarrow> take n xs | \<infinity> \<Rightarrow> xs)"

text \<open>The body of \<open>filteredDocs\<close> with the limit as a parameter; the source fixes it to
  \<open>MAX_DISPLAYED_RESULTS\<close>. The query is tested for emptiness after \<open>trim()\<close> but
  matched untrimmed.\<close>

definition rankDocs :: "enat \<Rightarrow> string \<Rightarrow> DocItem list \<Rightarrow> DocItem list" where
  "rankDocs limit searchText allDocs =
     (if allDocs = [] then []
      else if trim searchText = [] then []
      else map doc (slice0 limit (sortResults (collectResults (toLowerCase searchText) allDocs))))"

definition filteredDocs :: "string \<Rightarrow> DocItem list \<Rightarrow> DocItem list" where
  "filteredDocs searchText allDocs = rankDocs (enat MAX_DISPLAYED_RESULTS) searchText allDocs"

section \<open>The Extractor (data-fetcher.ts)\<close>

definition ENGINE_REF_ITEMS :: "string list" where
  "ENGINE_REF_ITEMS =
     [''properties'', ''methods'', ''events'', ''callbacks'', ''items'', ''functions'']"

definition SUBITEM_TYPE_MAP :: "string \<Rightarrow> item_type option" where
  "SUBITEM_TYPE_MAP =
     map_of [(''properties'', TProperty), (''methods'', TMethod), (''events'', TEvent),
             (''callbacks'', TCallback), (''functions'', TFunction)]"

definition cleanPath :: "string \<Rightarrow> string" where
  "cleanPath path = removeExtension (removePrefix ''content/en-us/'' path)"

text \<open>One sub-entry of a definition document:
  \<open>{ name: string; summary?: string; tags?: string[] }\<close>.\<close>

record YamlItem =
  item_name :: string
  item_summary :: "string option"
  item_tags :: "string list option"

definition isDeprecated :: "YamlItem \<Rightarrow> bool" where
  "isDeprecated item =
     (case item_tags item of None \<Rightarrow> False | Some ts \<Rightarrow> ''Deprecated'' \<in> set ts)"

text \<open>\<open>YAMLDocData\<close>; a category is \<open>None\<close> when the key is missing or its value is not
  an array.\<close>

record YAMLDocData =
  y_name :: "string option"
  y_type :: "string option"
  y_summary :: "string option"
  y_properties :: "YamlItem list option"
  y_methods :: "YamlItem list option"
  y_events :: "YamlItem list option"
  y_callbacks :: "YamlItem list option"
  y_items :: "YamlItem list option"
  y_functions :: "YamlItem list option"

text \<open>\<open>data[key]\<close> for the keys of \<open>ENGINE_REF_ITEMS\<close>.\<close>

definition yamlSection :: "YAMLDocData \<Rightarrow> string \<Rightarrow> YamlItem list option" where
  "yamlSection data key =
     (if key = ''properties'' then y_properties data
      else if key = ''methods'' then y_methods data
      else if key = ''events'' then y_events data
      else if key = ''callbacks'' then y_callbacks data
      else if key = ''items'' then y_items data
      else if key = ''functions'' then y_functions data
      else None)"

record SubitemData =
  sub_type :: string
  sub_title :: string
  sub_description :: "string option"

record FileMetadata =
  md_title :: "string option"
  md_description :: "string option"
  md_path :: string
  md_type :: string
  md_subitems :: "SubitemData list option"

text \<open>
  The structured-data parser is a capability of the environment. \<open>yamlLoad\<close> on a
  definition file throws, returns nothing (\<open>null\<close>, \<open>undefined\<close>) or returns a document;
  on a prose file, the match of \<open>/^---\s*\n([\s\S]*?)\n---/\<close> followed by \<open>yamlLoad\<close> of
  the header finds no header, fails (the parser throws, or returns no object), or gives
  the header's \<open>title\<close> and \<open>description\<close>.
\<close>

datatype yaml_result = YamlThrows | YamlNothing | YamlDoc YAMLDocData

datatype frontmatter =
  NoFrontmatter | FrontmatterFails | Frontmatter "string option" "string option"

record parsers =
  yamlLoad :: "string \<Rightarrow> yaml_result"
  readFrontmatter :: "string \<Rightarrow> frontmatter"

definition truncateDescription :: "string option \<Rightarrow> string" where
  "truncateDescription description =
     (case description of
        None \<Rightarrow> ''''
      | Some d \<Rightarrow>
          if d = [] then ''''
          else if length d > 200 then take 200 d @ ''...''
          else d)"

definition extractTitleFromPath :: "string \<Rightarrow> string" where
  "extractTitleFromPath filePath =
     (let fileName = (case rev (splitWhen (\<lambda>c. c = CHR ''/'') filePath) of
                        [] \<Rightarrow> ''''
                      | x # _ \<Rightarrow> x)
      in map (\<lambda>c. if c = CHR ''-'' \<or> c = CHR ''_'' then CHR '' '' else c)
           (removeExtension fileName))"

definition parseMarkdownFile :: "parsers \<Rightarrow> string \<Rightarrow> string \<Rightarrow> string \<Rightarrow> FileMetadata option" where
  "parseMarkdownFile P filePath url content =
     (let fallback = \<lparr>md_title = Some (extractTitleFromPath filePath), md_description = None,
                       md_path = url, md_type = ''article'', md_subitems = None\<rparr>
      in case readFrontmatter P content of
           NoFrontmatter \<Rightarrow> Some fallback
         | FrontmatterFails \<Rightarrow> Some fallback
         | Frontmatter t d \<Rightarrow>
             Some \<lparr>md_title = Some (case t of
                                      None \<Rightarrow> extractTitleFromPath filePath
                                    | Some s \<Rightarrow> if s = [] then extractTitleFromPath filePath else s),
                   md_description = Some (truncateDescription d),
                   md_path = url, md_type = ''article'', md_subitems = None\<rparr>)"

text \<open>The title of a sub-entry; a template literal prints a missing name as
  \<open>undefined\<close>.\<close>

definition subitemTitle :: "YAMLDocData \<Rightarrow> YamlItem \<Rightarrow> string" where
  "subitemTitle data item =
     (if y_type data = Some ''enum''
      then (case y_name data of None \<Rightarrow> ''undefined'' | Some n \<Rightarrow> n) @ ''.'' @ item_name item
      else item_name item)"

text \<open>The inner loop of \<open>parseYamlFile\<close> over the items of one category, and the outer
  loop over \<open>ENGINE_REF_ITEMS\<close>.\<close>

fun categorySubitems :: "YAMLDocData \<Rightarrow> string \<Rightarrow> YamlItem list \<Rightarrow> SubitemData list" where
  "categorySubitems data key [] = []"
| "categorySubitems data key (item # items) =
     (if isDeprecated item then categorySubitems data key items
      else \<lparr>sub_type = key, sub_title = subitemTitle data item,
            sub_description = Some (truncateDescription (item_summary item))\<rparr>
           # categorySubitems data key items)"

fun extractSubitems :: "YAMLDocData \<Rightarrow> string list \<Rightarrow> SubitemData list" where
  "extractSubitems data [] = []"
| "extractSubitems data (key # keys) =
     (case yamlSection data key of
        None \<Rightarrow> extractSubitems data keys
      | Some keyData \<Rightarrow> categorySubitems data key (take 50 keyData) @ extractSubitems data keys)"

definition parseYamlFile :: "parsers \<Rightarrow> string \<Rightarrow> string \<Rightarrow> string \<Rightarrow> FileMetadata option" where
  "parseYamlFile P filePath url content =
     (case yamlLoad P content of
        YamlThrows \<Rightarrow> None
      | YamlNothing \<Rightarrow> None
      | YamlDoc data \<Rightarrow>
          (case y_name data of
             None \<Rightarrow> None
           | Some n \<Rightarrow>
               if n = [] then None
               else Some \<lparr>md_title = Some n,
                          md_description = Some (truncateDescription (y_summary data)),
                          md_path = url,
                          md_type = (case y_type data of
                                       None \<Rightarrow> ''class''
                                     | Some t \<Rightarrow> if t = [] then ''class'' else t),
                          md_subitems = Some (extractSubitems data ENGINE_REF_ITEMS)\<rparr>))"

definition getCategoryFromPath :: "string \<Rightarrow> string" where
  "getCategoryFromPath path =
     (if includes_str path ''/reference/engine/classes/'' then ''Classes''
      else if includes_str path ''/reference/engine/enums/'' then ''Enums''
      else if includes_str path ''/reference/engine/globals/'' then ''Globals''
      else if includes_str path ''/tutorials/'' then ''Tutorials''
      else if includes_str path ''/scripting/'' then ''Scripting''
      else if includes_str path ''/art/'' then ''Art''
      else if includes_str path ''/physics/'' then ''Physics''
      else if includes_str path ''/ui/'' then ''UI''
      else if includes_str path ''/sound/'' then ''Sound''
      else if includes_str path ''/animation/'' then ''Animation''
      else if includes_str path ''/lighting/'' then ''Lighting''
      else ''Documentation'')"

definition getTypeFromMetadata :: "FileMetadata \<Rightarrow> item_type" where
  "getTypeFromMetadata metadata =
     (if md_type metadata = ''class'' then TClass
      else if md_type metadata = ''service'' then TService
      else if md_type metadata = ''enum'' then TEnum
      else if md_type metadata = ''global'' then TGlobal
      else if includes_str (md_path metadata) ''/tutorials/'' then TTutorial
      else if includes_str (md_path metadata) ''/reference/'' then TReference
      else TGuide)"

text \<open>The \<open>Set\<close> of \<open>generateKeywords\<close> keeps its members in the order of their first
  insertion.\<close>

fun addWords :: "string list \<Rightarrow> string list \<Rightarrow> string list" where
  "addWords kws [] = kws"
| "addWords kws (w # ws) =
     (if length w > 2 then addWords (if w \<in> set kws then kws else kws @ [w]) ws
      else addWords kws ws)"

definition generateKeywords :: "string \<Rightarrow> string \<Rightarrow> string \<Rightarrow> string list" where
  "generateKeywords title description path =
     (let k1 = addWords [] (splitRuns (\<lambda>c. \<not> isWordChar c) (toLowerCase title));
          k2 = addWords k1 (splitRuns (\<lambda>c. \<not> isWordChar c) (toLowerCase description));
          k3 = addWords k2 (splitWhen (\<lambda>c. c = CHR ''/'') (toLowerCase path))
      in take 10 k3)"

definition generateIdFromPath :: "string \<Rightarrow> string" where
  "generateIdFromPath path =
     toLowerCase (map (\<lambda>c. if isAlnum c then c else CHR ''-'') (cleanPath path))"

definition pathToUrl :: "string \<Rightarrow> string" where
  "pathToUrl path = ''https://create.roblox.com/docs/'' @ cleanPath path"

definition metadataToDocItem :: "FileMetadata \<Rightarrow> DocItem option" where
  "metadataToDocItem metadata =
     (case md_title metadata of
        None \<Rightarrow> None
      | Some t \<Rightarrow>
          if t = [] then None
          else let descr = (case md_description metadata of None \<Rightarrow> '''' | Some d \<Rightarrow> d)
               in Some \<lparr>doc_id = generateIdFromPath (md_path metadata),
                         doc_title = t,
                         doc_description = descr,
                         doc_url = pathToUrl (md_path metadata),
                         doc_category = getCategoryFromPath (md_path metadata),
                         doc_keywords = generateKeywords t descr (md_path metadata),
                         doc_type = getTypeFromMetadata metadata\<rparr>)"

text \<open>\<open>s.split(sep).pop() || s\<close>: the last piece, or the whole string when that piece
  is empty.\<close>

definition lastPieceOr :: "char \<Rightarrow> string \<Rightarrow> string" where
  "lastPieceOr sep s =
     (case rev (splitWhen (\<lambda>c. c = sep) s) of
        [] \<Rightarrow> s
      | x # _ \<Rightarrow> if x = [] then s else x)"

definition subitemToDocItem :: "SubitemData \<Rightarrow> FileMetadata \<Rightarrow> DocItem option" where
  "subitemToDocItem subitem parentMetadata =
     (if sub_title subitem = [] then None
      else let baseUrl = pathToUrl (md_path parentMetadata);
               anchorName =
                 (if includes_str (sub_title subitem) '':''
                  then lastPieceOr (CHR '':'') (sub_title subitem)
                  else if includes_str (sub_title subitem) ''.''
                  then lastPieceOr (CHR ''.'') (sub_title subitem)
                  else sub_title subitem);
               descr = (case sub_description subitem of None \<Rightarrow> '''' | Some d \<Rightarrow> d)
           in Some \<lparr>doc_id = generateIdFromPath (md_path parentMetadata) @ ''-'' @
                       map (\<lambda>c. if isLowerAlnum c then c else CHR ''-'')
                         (toLowerCase (sub_title subitem)),
                     doc_title = sub_title subitem,
                     doc_description =
                       (if descr = []
                        then butlast (sub_type subitem) @ '' of '' @
                             (case md_title parentMetadata of None \<Rightarrow> ''undefined'' | Some t \<Rightarrow> t)
                        else descr),
                     doc_url = baseUrl @ ''#'' @ anchorName,
                     doc_category = getCategoryFromPath (md_path parentMetadata),
                     doc_keywords =
                       generateKeywords (sub_title subitem) descr (md_path parentMetadata),
                     doc_type = (case SUBITEM_TYPE_MAP (sub_type subitem) of
                                   None \<Rightarrow> TReference
                                 | Some t \<Rightarrow> t)\<rparr>)"

section \<open>The Archive Processor (\<open>processZipArchiveOptimized\<close>)\<close>

text \<open>One entry of the opened archive: its path, whether it is a directory, and what
  \<open>file.async("text")\<close> gives (\<open>None\<close> when decoding the entry throws).\<close>

record ZipEntry =
  relativePath :: string
  dir :: bool
  text_content :: "string option"

definition BATCH_SIZE :: nat where
  "BATCH_SIZE = 25"

definition isRelevant :: "ZipEntry \<Rightarrow> bool" where
  "isRelevant e =
     (includes_str (relativePath e) ''content/en-us/''
      \<and> (endsWith (relativePath e) ''.md'' \<or> endsWith (relativePath e) ''.yaml'')
      \<and> \<not> dir e)"

text \<open>The callback of \<open>batch.map\<close>: the metadata of one file, \<open>None\<close> for \<open>null\<close>.
  \<open>path.substring(i)\<close> with \<open>i = -1\<close> is the whole path.\<close>

definition fileMetadata :: "parsers \<Rightarrow> ZipEntry \<Rightarrow> FileMetadata option" where
  "fileMetadata P e =
     (case text_content e of
        None \<Rightarrow> None
      | Some content \<Rightarrow>
          let path = relativePath e;
              url = (case indexOf path ''content/en-us/'' of
                       None \<Rightarrow> path
                     | Some i \<Rightarrow> drop i path)
          in if endsWith path ''.md'' then parseMarkdownFile P path url content
             else if endsWith path ''.yaml'' then parseYamlFile P path url content
             else None)"

text \<open>The loop over the sub-entries of one file, and the body of the loop over
  \<open>validMetadata\<close>: the Records one file contributes.\<close>

fun subitemRecords :: "SubitemData list \<Rightarrow> FileMetadata \<Rightarrow> DocItem list" where
  "subitemRecords [] metadata = []"
| "subitemRecords (subitem # subitems) metadata =
     (case subitemToDocItem subitem metadata of
        None \<Rightarrow> subitemRecords subitems metadata
      | Some subDocItem \<Rightarrow> subDocItem # subitemRecords subitems metadata)"

definition metadataRecords :: "FileMetadata \<Rightarrow> DocItem list" where
  "metadataRecords metadata =
     (case metadataToDocItem metadata of
        None \<Rightarrow> []
      | Some docItem \<Rightarrow>
          docItem # (case md_subitems metadata of
                       None \<Rightarrow> []
                     | Some subitems \<Rightarrow> subitemRecords subitems metadata))"

definition batchRecords :: "parsers \<Rightarrow> ZipEntry list \<Rightarrow> DocItem list" where
  "batchRecords P batch =
     (let batchResults = map (fileMetadata P) batch;
          validMetadata = List.map_filter (\<lambda>m. m) batchResults
      in concat (map metadataRecords validMetadata))"

text \<open>\<open>for (let i = 0; i < relevantFiles.length; i += this.BATCH_SIZE)\<close>, with
  \<open>relevantFiles.slice(i, i + this.BATCH_SIZE)\<close> as the batch.\<close>

function processBatches :: "parsers \<Rightarrow> ZipEntry list \<Rightarrow> nat \<Rightarrow> DocItem list \<Rightarrow> DocItem list" where
  "processBatches P relevantFiles i docItems =
     (if i < length relevantFiles
      then processBatches P relevantFiles (i + BATCH_SIZE)
             (docItems @ batchRecords P (take BATCH_SIZE (drop i relevantFiles)))
      else docItems)"
  by pat_completeness auto
termination
  by (relation "measure (\<lambda>(P, relevantFiles, i, docItems). length relevantFiles - i)")
     (auto simp: BATCH_SIZE_def)

text \<open>The equation of the loop calls itself: it is unfolded on request only.\<close>

declare processBatches.simps [simp del]

text \<open>A thrown value. \<open>JSZip.loadAsync\<close> is a capability of the environment (the
  parameter \<open>open_zip\<close>): it opens the downloaded bytes or throws; the \<open>catch\<close> of
  \<open>processZipArchiveOptimized\<close> throws the error again.\<close>

datatype js_error = Error string

type_synonym buffer = "nat list"

definition processZipArchiveOptimized ::
    "(buffer \<Rightarrow> js_error + ZipEntry list) \<Rightarrow> parsers \<Rightarrow> buffer \<Rightarrow> js_error + DocItem list" where
  "processZipArchiveOptimized open_zip P zipBuffer =
     (case open_zip zipBuffer of
        Inl e \<Rightarrow> Inl e
      | Inr entries \<Rightarrow> Inr (processBatches P (filter isRelevant entries) 0 []))"

section \<open>The Cache Store and the fetch operations\<close>

text \<open>The object written under the key \<open>roblox-docs-data\<close>:
  \<open>{ data, timestamp, sha }\<close>.\<close>

record CacheData =
  data :: "DocItem list"
  sha :: "string option"
  timestamp :: int

text \<open>What the key holds: a string that \<open>JSON.parse\<close> rejects, or such an object.\<close>

datatype stored = Unparsable | Parsed CacheData

text \<open>
  The state of the extension: the two keys of the \<open>Cache\<close> (the second one holds the
  decimal time of the last update check, written by \<open>Date.now().toString()\<close>), and the
  background version requests that were fired and are not awaited, each with the
  \<open>cachedSha\<close> it compares against.
\<close>

record state =
  docs_data :: "stored option"
  last_update_check :: "int option"
  background_checks :: "string option list"

text \<open>The process in which a call runs: the value of \<open>Date.now()\<close> and the version
  of the running extension. No function of the source reads the version.\<close>

record process =
  now :: int
  extensionVersion :: string

definition cacheExpiry :: int where
  "cacheExpiry = 24 * 60 * 60 * 1000"

definition updateCheckInterval :: int where
  "updateCheckInterval = 60 * 60 * 1000"

definition clearCache :: "state \<Rightarrow> state" where
  "clearCache st = st\<lparr>docs_data := None\<rparr>"

definition getCachedData :: "process \<Rightarrow> state \<Rightarrow> CacheData option" where
  "getCachedData env st =
     (case docs_data st of
        None \<Rightarrow> None
      | Some Unparsable \<Rightarrow> None
      | Some (Parsed parsed) \<Rightarrow>
          if now env - timestamp parsed > cacheExpiry then None else Some parsed)"

text \<open>An HTTP response: \<open>ok\<close>, \<open>statusText\<close>, and what reading the body gives
  (\<open>response.json()\<close> as the \<open>sha\<close> of the commit, \<open>response.buffer()\<close> as bytes).\<close>

record 'b response =
  ok :: bool
  statusText :: string
  body :: "js_error + 'b"

text \<open>The network as one call finds it: what each of the two requests does. A request
  that fails or is aborted by its timeout throws.\<close>

record network =
  commits_main :: "js_error + string response"
  main_zip :: "js_error + buffer response"
  loadAsync :: "buffer \<Rightarrow> js_error + ZipEntry list"

definition getLatestCommitSha :: "network \<Rightarrow> string option" where
  "getLatestCommitSha net =
     (case commits_main net of
        Inl e \<Rightarrow> None
      | Inr resp \<Rightarrow>
          if \<not> ok resp then None
          else (case body resp of Inl e \<Rightarrow> None | Inr s \<Rightarrow> Some s))"

definition checkForUpdatesInBackground :: "process \<Rightarrow> string option \<Rightarrow> state \<Rightarrow> state" where
  "checkForUpdatesInBackground env cachedSha st =
     (let fire = st\<lparr>last_update_check := Some (now env),
                     background_checks := background_checks st @ [cachedSha]\<rparr>
      in case last_update_check st of
           None \<Rightarrow> fire
         | Some lastCheck \<Rightarrow>
             if now env - lastCheck < updateCheckInterval then st else fire)"

text \<open>The \<open>try\<close> block of \<open>fetchFreshData\<close>: \<open>Inl\<close> is a throw that reaches the
  \<open>catch\<close>.\<close>

definition fetchFreshData_try ::
    "network \<Rightarrow> parsers \<Rightarrow> process \<Rightarrow> string option \<Rightarrow> state \<Rightarrow> js_error + (DocItem list \<times> state)" where
  "fetchFreshData_try net P env latestSha st =
     (case main_zip net of
        Inl e \<Rightarrow> Inl e
      | Inr zipResponse \<Rightarrow>
          if \<not> ok zipResponse
          then Inl (Error (''Failed to download docs: '' @ statusText zipResponse))
          else (case body zipResponse of
                  Inl e \<Rightarrow> Inl e
                | Inr zipBuffer \<Rightarrow>
                    (case processZipArchiveOptimized (loadAsync net) P zipBuffer of
                       Inl e \<Rightarrow> Inl e
                     | Inr docItems \<Rightarrow>
                         Inr (docItems,
                              st\<lparr>docs_data :=
                                   Some (Parsed \<lparr>data = docItems, sha = latestSha,
                                                 timestamp = now env\<rparr>)\<rparr>))))"

text \<open>The functions return what the awaited promise settles to: \<open>Inl\<close> for a
  rejection, \<open>Inr\<close> for the Records.\<close>

definition fetchFreshData ::
    "network \<Rightarrow> parsers \<Rightarrow> process \<Rightarrow> state \<Rightarrow> (js_error + DocItem list) \<times> state" where
  "fetchFreshData net P env st =
     (let latestSha = getLatestCommitSha net
      in case fetchFreshData_try net P env latestSha st of
           Inl error \<Rightarrow> (Inr [], st)
         | Inr (docItems, st') \<Rightarrow> (Inr docItems, st'))"

definition fetchDocsData ::
    "network \<Rightarrow> parsers \<Rightarrow> process \<Rightarrow> state \<Rightarrow> (js_error + DocItem list) \<times> state" where
  "fetchDocsData net P env st =
     (case getCachedData env st of
        None \<Rightarrow> fetchFreshData net P env st
      | Some cachedData \<Rightarrow>
          if length (data cachedData) > 0
          then (Inr (data cachedData), checkForUpdatesInBackground env (sha cachedData) st)
          else fetchFreshData net P env st)"

section \<open>Notions of the specification\<close>

text \<open>
  The piece of a lower-cased title between its first and its second separator
  (\<open>:\<close> or \<open>.\<close>), empty when there is no separator; the piece after its last
  separator; and "the field contains the query, case-insensitively".
\<close>

definition secondSegment :: "string \<Rightarrow> string" where
  "secondSegment s =
     takeWhile (\<lambda>c. \<not> isSeparator c) (tl (dropWhile (\<lambda>c. \<not> isSeparator c) s))"

definition lastSegment :: "string \<Rightarrow> string" where
  "lastSegment s = rev (takeWhile (\<lambda>c. \<not> isSeparator c) (rev s))"

definition containsQuery :: "string \<Rightarrow> string \<Rightarrow> bool" where
  "containsQuery field q = includes_str (toLowerCase field) (toLowerCase q)"

text \<open>
  The source text of an optional field (a missing field has none), and a text held to the
  length cap: at most 200 characters of it, followed by the ellipsis marker when
  something was cut off.
\<close>

definition sourceText :: "string option \<Rightarrow> string" where
  "sourceText field = (case field of None \<Rightarrow> [] | Some s \<Rightarrow> s)"

definition capped :: "string \<Rightarrow> string" where
  "capped s = (if length s \<le> 200 then s else take 200 s @ ''...'')"

section \<open>Example inputs\<close>

definition ex_fire :: DocItem where
  "ex_fire = \<lparr>doc_id = ''reference-engine-classes-remoteevent-remoteevent-fire'',
              doc_title = ''Fire'', doc_description = ''Fires the event'',
              doc_url = ''https://create.roblox.com/docs/reference/engine/classes/RemoteEvent#Fire'',
              doc_category = ''Classes'', doc_keywords = [''fire'', ''fires'', ''the'', ''event''],
              doc_type = TMethod\<rparr>"

definition ex_fired :: DocItem where
  "ex_fired = \<lparr>doc_id = ''reference-engine-classes-remoteevent-remoteevent-fired'',
              doc_title = ''Fired'', doc_description = ''Runs afterwards'',
              doc_url = ''https://create.roblox.com/docs/reference/engine/classes/RemoteEvent#Fired'',
              doc_category = ''Classes'', doc_keywords = [''fired'', ''runs'', ''afterwards''],
              doc_type = TEvent\<rparr>"

definition ex_guide :: DocItem where
  "ex_guide = \<lparr>doc_id = ''ui-frames'',
              doc_title = ''Frames'', doc_description = ''Containers for interface objects'',
              doc_url = ''https://create.roblox.com/docs/ui/frames'',
              doc_category = ''UI'', doc_keywords = [''frames'', ''containers''],
              doc_type = TGuide\<rparr>"

definition ex_member :: DocItem where
  "ex_member = \<lparr>doc_id = ''reference-engine-classes-animator-animator-loadanimation'',
              doc_title = ''Animator:LoadAnimation'', doc_description = ''Loads an animation'',
              doc_url = ''https://create.roblox.com/docs/reference/engine/classes/Animator#LoadAnimation'',
              doc_category = ''Classes'', doc_keywords = [''animator'', ''loadanimation''],
              doc_type = TMethod\<rparr>"

text \<open>A small archive. The texts of its files stand for themselves: the parser of
  the example maps each of them to the document it describes.\<close>

definition ex_part :: YAMLDocData where
  "ex_part = \<lparr>y_name = Some ''Part'', y_type = Some ''class'',
       y_summary = Some ''A physical brick'',
       y_properties = Some [\<lparr>item_name = ''Size'', item_summary = Some ''The size of the part'',
                              item_tags = None\<rparr>,
                            \<lparr>item_name = ''Part.FormFactor'', item_summary = Some ''The old shape'',
                              item_tags = Some [''Deprecated'']\<rparr>],
       y_methods = Some [\<lparr>item_name = ''Part:Resize'', item_summary = None,
                           item_tags = Some [''NotReplicated'']\<rparr>],
       y_events = None, y_callbacks = None, y_items = None, y_functions = None\<rparr>"

definition ex_keycode :: YAMLDocData where
  "ex_keycode = \<lparr>y_name = Some ''KeyCode'', y_type = Some ''enum'',
       y_summary = Some ''The keys of a keyboard'',
       y_properties = None, y_methods = None, y_events = None, y_callbacks = None,
       y_items = Some [\<lparr>item_name = ''A'', item_summary = Some ''The A key'', item_tags = None\<rparr>],
       y_functions = None\<rparr>"

text \<open>A class with a property \<open>Foo.Bar\<close> and a method \<open>Foo:Bar\<close>.\<close>

definition ex_foo :: YAMLDocData where
  "ex_foo = \<lparr>y_name = Some ''Foo'', y_type = Some ''class'', y_summary = None,
       y_properties = Some [\<lparr>item_name = ''Foo.Bar'', item_summary = None, item_tags = None\<rparr>],
       y_methods = Some [\<lparr>item_name = ''Foo:Bar'', item_summary = None, item_tags = None\<rparr>],
       y_events = None, y_callbacks = None, y_items = None, y_functions = None\<rparr>"

text \<open>A class whose name has 200 characters, with one property that has no summary.\<close>

definition ex_long :: YAMLDocData where
  "ex_long = \<lparr>y_name = Some (replicate 200 (CHR ''A'')), y_type = Some ''class'',
       y_summary = None,
       y_properties = Some [\<lparr>item_name = ''Size'', item_summary = None, item_tags = None\<rparr>],
       y_methods = None, y_events = None, y_callbacks = None, y_items = None,
       y_functions = None\<rparr>"

text \<open>A class whose summary has 201 characters, with one property that has no
  summary.\<close>

definition ex_lamp :: YAMLDocData where
  "ex_lamp = \<lparr>y_name = Some ''Lamp'', y_type = Some ''class'',
       y_summary = Some (replicate 201 (CHR ''x'')),
       y_properties = Some [\<lparr>item_name = ''Lamp.Color'', item_summary = None, item_tags = None\<rparr>],
       y_methods = None, y_events = None, y_callbacks = None, y_items = None,
       y_functions = None\<rparr>"

definition ex_parsers :: parsers where
  "ex_parsers =
     \<lparr>yamlLoad = (\<lambda>content.
         if content = ''part'' then YamlDoc ex_part
         else if content = ''keycode'' then YamlDoc ex_keycode
         else if content = ''foo'' then YamlDoc ex_foo
         else if content = ''long'' then YamlDoc ex_long
         else if content = ''lamp'' then YamlDoc ex_lamp
         else YamlThrows),
      readFrontmatter = (\<lambda>content.
         if content = ''intro'' then Frontmatter (Some ''Introduction'') (Some ''First steps'')
         else NoFrontmatter)\<rparr>"

definition ex_part_file :: ZipEntry where
  "ex_part_file =
     \<lparr>relativePath = ''creator-docs-main/content/en-us/reference/engine/classes/Part.yaml'',
      dir = False, text_content = Some ''part''\<rparr>"

definition ex_keycode_file :: ZipEntry where
  "ex_keycode_file =
     \<lparr>relativePath = ''creator-docs-main/content/en-us/reference/engine/enums/KeyCode.yaml'',
      dir = False, text_content = Some ''keycode''\<rparr>"

definition ex_foo_file :: ZipEntry where
  "ex_foo_file =
     \<lparr>relativePath = ''creator-docs-main/content/en-us/reference/engine/classes/Foo.yaml'',
      dir = False, text_content = Some ''foo''\<rparr>"

definition ex_long_file :: ZipEntry where
  "ex_long_file =
     \<lparr>relativePath = ''creator-docs-main/content/en-us/reference/engine/classes/Long.yaml'',
      dir = False, text_content = Some ''long''\<rparr>"

definition ex_lamp_file :: ZipEntry where
  "ex_lamp_file =
     \<lparr>relativePath = ''creator-docs-main/content/en-us/reference/engine/classes/Lamp.yaml'',
      dir = False, text_content = Some ''lamp''\<rparr>"

definition ex_intro_file :: ZipEntry where
  "ex_intro_file =
     \<lparr>relativePath = ''creator-docs-main/content/en-us/tutorials/intro.md'',
      dir = False, text_content = Some ''intro''\<rparr>"

definition ex_archive :: "ZipEntry list" where
  "ex_archive =
     [\<lparr>relativePath = ''creator-docs-main/content/en-us/'', dir = True, text_content = None\<rparr>,
      \<lparr>relativePath = ''creator-docs-main/README.md'', dir = False, text_content = Some ''readme''\<rparr>,
      ex_part_file, ex_intro_file]"

text \<open>An archive reader that opens any bytes as the given entries.\<close>

definition ex_open :: "ZipEntry list \<Rightarrow> buffer \<Rightarrow> js_error + ZipEntry list" where
  "ex_open entries b = Inr entries"

text \<open>A network whose archive opens, and one that serves bytes that are no archive.\<close>

definition ex_loadAsync :: "buffer \<Rightarrow> js_error + ZipEntry list" where
  "ex_loadAsync b = (if b = [80, 75, 3, 4] then Inr ex_archive else Inl (Error ''not a zip file''))"

definition ex_net :: network where
  "ex_net = \<lparr>commits_main = Inr \<lparr>ok = True, statusText = ''OK'', body = Inr ''abc123''\<rparr>,
             main_zip = Inr \<lparr>ok = True, statusText = ''OK'', body = Inr [80, 75, 3, 4]\<rparr>,
             loadAsync = ex_loadAsync\<rparr>"

definition ex_bad_net :: network where
  "ex_bad_net = \<lparr>commits_main = Inr \<lparr>ok = True, statusText = ''OK'', body = Inr ''abc123''\<rparr>,
             main_zip = Inr \<lparr>ok = True, statusText = ''OK'', body = Inr [60, 104, 116]\<rparr>,
             loadAsync = ex_loadAsync\<rparr>"

definition ex_state0 :: state where
  "ex_state0 = \<lparr>docs_data = None, last_update_check = None, background_checks = []\<rparr>"

definition ex_cached :: state where
  "ex_cached = \<lparr>docs_data = Some (Parsed \<lparr>data = [ex_fire], sha = Some ''abc123'', timestamp = 1000\<rparr>),
                last_update_check = None, background_checks = []\<rparr>"

definition ex_cached_empty :: state where
  "ex_cached_empty = \<lparr>docs_data = Some (Parsed \<lparr>data = [], sha = None, timestamp = 1000\<rparr>),
                last_update_check = None, background_checks = []\<rparr>"

text \<open>What the extractor makes of the files \<open>KeyCode.yaml\<close> and \<open>Part.yaml\<close>.\<close>

definition ex_keycode_md :: FileMetadata where
  "ex_keycode_md =
     \<lparr>md_title = Some ''KeyCode'', md_description = Some ''The keys of a keyboard'',
      md_path = ''content/en-us/reference/engine/enums/KeyCode.yaml'', md_type = ''enum'',
      md_subitems = Some [\<lparr>sub_type = ''items'', sub_title = ''KeyCode.A'',
                            sub_description = Some ''The A key''\<rparr>]\<rparr>"

definition ex_keycode_a :: DocItem where
  "ex_keycode_a =
     \<lparr>doc_id = ''reference-engine-enums-keycode-keycode-a'', doc_title = ''KeyCode.A'',
      doc_description = ''The A key'',
      doc_url = ''https://create.roblox.com/docs/reference/engine/enums/KeyCode#A'',
      doc_category = ''Enums'',
      doc_keywords = [''keycode'', ''the'', ''key'', ''content'', ''en-us'', ''reference'',
                      ''engine'', ''enums'', ''keycode.yaml''],
      doc_type = TReference\<rparr>"

definition ex_part_md :: FileMetadata where
  "ex_part_md =
     \<lparr>md_title = Some ''Part'', md_description = Some ''A physical brick'',
      md_path = ''content/en-us/reference/engine/classes/Part.yaml'', md_type = ''class'',
      md_subitems = Some [\<lparr>sub_type = ''properties'', sub_title = ''Size'',
                            sub_description = Some ''The size of the part''\<rparr>,
                          \<lparr>sub_type = ''methods'', sub_title = ''Part:Resize'',
                            sub_description = Some ''''\<rparr>]\<rparr>"

definition ex_part_size :: DocItem where
  "ex_part_size =
     \<lparr>doc_id = ''reference-engine-classes-part-size'', doc_title = ''Size'',
      doc_description = ''The size of the part'',
      doc_url = ''https://create.roblox.com/docs/reference/engine/classes/Part#Size'',
      doc_category = ''Classes'',
      doc_keywords = [''size'', ''the'', ''part'', ''content'', ''en-us'', ''reference'',
                      ''engine'', ''classes'', ''part.yaml''],
      doc_type = TProperty\<rparr>"

text \<open>What the extractor makes of the file \<open>Lamp.yaml\<close>, and of the example archive.\<close>

definition ex_lamp_parent :: DocItem where
  "ex_lamp_parent =
     \<lparr>doc_id = ''reference-engine-classes-lamp'', doc_title = ''Lamp'',
      doc_description = replicate 200 (CHR ''x'') @ ''...'',
      doc_url = ''https://create.roblox.com/docs/reference/engine/classes/Lamp'',
      doc_category = ''Classes'',
      doc_keywords = [''lamp'', replicate 200 (CHR ''x''), ''content'', ''en-us'', ''reference'',
                      ''engine'', ''classes'', ''lamp.yaml''],
      doc_type = TClass\<rparr>"

definition ex_lamp_color :: DocItem where
  "ex_lamp_color =
     \<lparr>doc_id = ''reference-engine-classes-lamp-lamp-color'', doc_title = ''Lamp.Color'',
      doc_description = ''propertie of Lamp'',
      doc_url = ''https://create.roblox.com/docs/reference/engine/classes/Lamp#Color'',
      doc_category = ''Classes'',
      doc_keywords = [''lamp'', ''color'', ''content'', ''en-us'', ''reference'', ''engine'',
                      ''classes'', ''lamp.yaml''],
      doc_type = TProperty\<rparr>"

definition ex_part_parent :: DocItem where
  "ex_part_parent =
     \<lparr>doc_id = ''reference-engine-classes-part'', doc_title = ''Part'',
      doc_description = ''A physical brick'',
      doc_url = ''https://create.roblox.com/docs/reference/engine/classes/Part'',
      doc_category = ''Classes'',
      doc_keywords = [''part'', ''physical'', ''brick'', ''content'', ''en-us'', ''reference'',
                      ''engine'', ''classes'', ''part.yaml''],
      doc_type = TClass\<rparr>"

definition ex_part_resize :: DocItem where
  "ex_part_resize =
     \<lparr>doc_id = ''reference-engine-classes-part-part-resize'', doc_title = ''Part:Resize'',
      doc_description = ''method of Part'',
      doc_url = ''https://create.roblox.com/docs/reference/engine/classes/Part#Resize'',
      doc_category = ''Classes'',
      doc_keywords = [''part'', ''resize'', ''content'', ''en-us'', ''reference'', ''engine'',
                      ''classes'', ''part.yaml''],
      doc_type = TMethod\<rparr>"

definition ex_intro :: DocItem where
  "ex_intro =
     \<lparr>doc_id = ''tutorials-intro'', doc_title = ''Introduction'',
      doc_description = ''First steps'',
      doc_url = ''https://create.roblox.com/docs/tutorials/intro'',
      doc_category = ''Tutorials'',
      doc_keywords = [''introduction'', ''first'', ''steps'', ''content'', ''en-us'',
                      ''tutorials'', ''intro.md''],
      doc_type = TTutorial\<rparr>"


section \<open>Strings: what the executable tests mean\<close>

lemma startsWith_prefix: "startsWith s p \<longleftrightarrow> prefix p s"
  by (induction s p rule: startsWith.induct) auto

lemma includes_str_iff: "includes_str s p \<longleftrightarrow> (\<exists>a b. s = a @ p @ b)"
proof (induction s)
  case Nil
  then show ?case by auto
next
  case (Cons c cs)
  show ?case
  proof
    assume "includes_str (c # cs) p"
    then consider "prefix p (c # cs)" | "includes_str cs p" by (auto simp: startsWith_prefix)
    then show "\<exists>a b. c # cs = a @ p @ b"
    proof cases
      case 1
      then obtain b where "c # cs = p @ b" by (auto simp: prefix_def)
      then have "c # cs = [] @ p @ b" by simp
      then show ?thesis by blast
    next
      case 2
      with Cons.IH obtain a b where "cs = a @ p @ b" by blast
      then have "c # cs = (c # a) @ p @ b" by simp
      then show ?thesis by blast
    qed
  next
    assume "\<exists>a b. c # cs = a @ p @ b"
    then obtain a b where ab: "c # cs = a @ p @ b" by blast
    show "includes_str (c # cs) p"
    proof (cases a)
      case Nil
      with ab have "prefix p (c # cs)" by (simp add: prefix_def)
      then show ?thesis by (simp add: startsWith_prefix)
    next
      case (Cons x a')
      with ab have "cs = a' @ p @ b" by simp
      with Cons.IH have "includes_str cs p" by blast
      then show ?thesis by simp
    qed
  qed
qed

lemma includes_str_single: "includes_str s [c] \<longleftrightarrow> c \<in> set s"
  by (induction s) auto

section \<open>Properties of the search ranker\<close>

lemma splitWhen_unfold:
  "splitWhen P s =
     takeWhile (\<lambda>c. \<not> P c) s #
     (case dropWhile (\<lambda>c. \<not> P c) s of [] \<Rightarrow> [] | _ # r \<Rightarrow> splitWhen P r)"
  by (induction s) (simp_all split: list.splits)

lemma titlePart_eq:
  "titlePart s = (if secondSegment s = [] then s else secondSegment s)"
proof (cases "dropWhile (\<lambda>c. \<not> isSeparator c) s")
  case Nil
  then have "\<forall>c\<in>set s. \<not> isSeparator c" by simp
  then have ni: "\<not> (includes_str s '':'' \<or> includes_str s ''.'')"
    by (auto simp: includes_str_single isSeparator_def)
  show ?thesis unfolding titlePart_def secondSegment_def Nil using ni by simp
next
  case (Cons x r)
  then have "\<exists>c\<in>set s. isSeparator c"
    by (metis dropWhile_eq_Nil_conv list.distinct(1))
  then have inc: "includes_str s '':'' \<or> includes_str s ''.''"
    by (auto simp: includes_str_single isSeparator_def)
  have sp: "splitWhen isSeparator s =
      takeWhile (\<lambda>c. \<not> isSeparator c) s # splitWhen isSeparator r"
    using splitWhen_unfold [of isSeparator s] Cons by simp
  have sr: "splitWhen isSeparator r =
      takeWhile (\<lambda>c. \<not> isSeparator c) r #
      (case dropWhile (\<lambda>c. \<not> isSeparator c) r of [] \<Rightarrow> [] | _ # r' \<Rightarrow> splitWhen isSeparator r')"
    by (rule splitWhen_unfold)
  have seg: "secondSegment s = takeWhile (\<lambda>c. \<not> isSeparator c) r"
    by (simp add: secondSegment_def Cons)
  show ?thesis unfolding titlePart_def sp seg using inc by (subst sr) simp
qed

lemma matchScore_tiers:
  "matchScore t q =
     (if t = q \<or> (secondSegment t = q \<and> q \<noteq> []) then 1000
      else if startsWith t q then 500 else 250)"
  by (auto simp: matchScore_def titlePart_eq)

text \<open>
  C4, as the specification states it, takes the piece after the \<^emph>\<open>last\<close> separator. The
  title \<open>Enum.KeyCode.A\<close> contains the query \<open>a\<close>, and its last piece is the query, yet
  the base score is 250 and not 1000: \<open>split(/[:.]/)[1]\<close> is the piece \<open>keycode\<close>.
\<close>

theorem C4_counterexample:
  "containsQuery ''Enum.KeyCode.A'' ''a''
   \<and> lastSegment (toLowerCase ''Enum.KeyCode.A'') = toLowerCase ''a''
   \<and> matchScore (toLowerCase ''Enum.KeyCode.A'') (toLowerCase ''a'') = 250"
  by (simp add: containsQuery_def lastSegment_def toLowerCase_def toLowerChar_def
      matchScore_def titlePart_def isSeparator_def char_of_eq_iff)

text \<open>
  C4 (amended). For every Record whose lower-cased title contains the lower-cased query, the
  ranker's score is the base score times the category multiplier minus the length of the
  title, and the base score is 1000 if and only if the lower-cased title equals the query
  or the piece between its first and second separator (\<open>:\<close> or \<open>.\<close>) is not empty and
  equals the query; otherwise it is 500 when the title starts with the query and 250 for
  any other substring match.
\<close>

theorem C4_title_match_score:
  assumes "includes_str (toLowerCase (doc_title d)) searchLower"
  shows "scoreDoc searchLower d =
     Some ((if toLowerCase (doc_title d) = searchLower
               \<or> (secondSegment (toLowerCase (doc_title d)) = searchLower \<and> searchLower \<noteq> [])
            then 1000
            else if startsWith (toLowerCase (doc_title d)) searchLower then 500
            else 250) * categoryMultiplier d - int (length (doc_title d)))"
  using assms by (simp add: scoreDoc_def Let_def matchScore_tiers)

text \<open>The amended C4 at \<open>Animator:LoadAnimation\<close> and the query \<open>loadanimation\<close>:
  an exact match of a member of a class, \<open>1000 * 8 - 22\<close>.\<close>

theorem C4_title_match_score_witness:
  "includes_str (toLowerCase (doc_title ex_member)) ''loadanimation''
   \<and> secondSegment (toLowerCase (doc_title ex_member)) = ''loadanimation''
   \<and> scoreDoc ''loadanimation'' ex_member = Some 7978"
proof -
  have h: "includes_str (toLowerCase (doc_title ex_member)) ''loadanimation''"
    by (simp add: ex_member_def toLowerCase_def toLowerChar_def char_of_eq_iff)
  have s: "secondSegment (toLowerCase (doc_title ex_member)) = ''loadanimation''"
    by (simp add: ex_member_def toLowerCase_def toLowerChar_def char_of_eq_iff
        secondSegment_def isSeparator_def)
  have c: "categoryMultiplier ex_member = 8"
    by (simp add: ex_member_def categoryMultiplier_def)
  have l: "length (doc_title ex_member) = 22"
    by (simp add: ex_member_def)
  show ?thesis using h s C4_title_match_score [OF h] by (simp add: c l)
qed

lemma collectResults_scored:
  "r \<in> set (collectResults searchLower ds) \<Longrightarrow>
   doc r \<in> set ds \<and> scoreDoc searchLower (doc r) = Some (score r)"
  by (induction ds) (auto split: option.splits)

lemma scoreDoc_Some_matches:
  assumes "scoreDoc searchLower d = Some s"
  shows "includes_str (toLowerCase (doc_title d)) searchLower
     \<or> descriptionMatch searchLower d \<or> keywordMatch searchLower d
     \<or> categoryMatch searchLower d \<or> typeMatch searchLower d"
  using assms by (auto simp: scoreDoc_def Let_def split: if_splits)

lemma set_slice0: "set (slice0 limit xs) \<subseteq> set xs"
  by (cases limit) (auto simp: slice0_def dest: in_set_takeD)

lemma rankDocs_origin:
  assumes "d \<in> set (rankDocs limit searchText allDocs)"
  shows "d \<in> set allDocs \<and> (\<exists>s. scoreDoc (toLowerCase searchText) d = Some s)"
proof -
  from assms have
    "d \<in> doc ` set (slice0 limit (sortResults (collectResults (toLowerCase searchText) allDocs)))"
    by (auto simp: rankDocs_def split: if_splits)
  then obtain r where r: "r \<in> set (sortResults (collectResults (toLowerCase searchText) allDocs))"
    and d: "d = doc r"
    using set_slice0 by fastforce
  from r have "r \<in> set (collectResults (toLowerCase searchText) allDocs)"
    by (simp add: sortResults_def)
  with d show ?thesis using collectResults_scored by blast
qed

text \<open>
  C5. For every Record list \<open>R\<close> and every query \<open>q\<close> that is not empty after trimming,
  every Record that the ranker returns (whatever the limit) contains \<open>q\<close> as a
  case-insensitive substring in its title, its description, one of its keywords, its
  category or its type.
\<close>

theorem C5_ranked_records_contain_query:
  assumes "trim q \<noteq> []" and "d \<in> set (rankDocs limit q R)"
  shows "containsQuery (doc_title d) q \<or> containsQuery (doc_description d) q
     \<or> (\<exists>k \<in> set (doc_keywords d). containsQuery k q)
     \<or> containsQuery (doc_category d) q \<or> containsQuery (typeString (doc_type d)) q"
proof -
  from assms(2) obtain s where "scoreDoc (toLowerCase q) d = Some s"
    using rankDocs_origin by blast
  from scoreDoc_Some_matches [OF this] show ?thesis
    by (auto simp: containsQuery_def descriptionMatch_def keywordMatch_def categoryMatch_def
        typeMatch_def list_ex_iff)
qed

lemma ex_rank: "filteredDocs ''fire'' [ex_guide, ex_fired, ex_fire] = [ex_fire, ex_fired]"
  by (simp add: filteredDocs_def rankDocs_def trim_def isSpace_def toLowerCase_def toLowerChar_def
      char_of_eq_iff scoreDoc_def descriptionMatch_def keywordMatch_def categoryMatch_def
      typeMatch_def matchScore_def titlePart_def isSeparator_def categoryMultiplier_def
      sortResults_def slice0_def MAX_DISPLAYED_RESULTS_def ex_guide_def ex_fired_def ex_fire_def)

text \<open>C5 at the query \<open>fire\<close> and three Records, two of which are returned.\<close>

theorem C5_ranked_records_contain_query_witness:
  "trim ''fire'' \<noteq> []
   \<and> ex_fired \<in> set (rankDocs (enat MAX_DISPLAYED_RESULTS) ''fire'' [ex_guide, ex_fired, ex_fire])
   \<and> (containsQuery (doc_title ex_fired) ''fire'' \<or> containsQuery (doc_description ex_fired) ''fire''
     \<or> (\<exists>k \<in> set (doc_keywords ex_fired). containsQuery k ''fire'')
     \<or> containsQuery (doc_category ex_fired) ''fire''
     \<or> containsQuery (typeString (doc_type ex_fired)) ''fire'')"
proof -
  have h1: "trim ''fire'' \<noteq> []"
    by (simp add: trim_def isSpace_def)
  have h2: "ex_fired \<in> set (rankDocs (enat MAX_DISPLAYED_RESULTS) ''fire'' [ex_guide, ex_fired, ex_fire])"
    using ex_rank by (simp add: filteredDocs_def)
  from C5_ranked_records_contain_query [OF h1 h2] h1 h2 show ?thesis by blast
qed

text \<open>
  C6. For every query, Record list and limit \<open>n\<close>, the ranked result has at most \<open>n\<close>
  Records and is a prefix of the ranked result of the same inputs with no limit.
\<close>

theorem C6_limit_is_prefix:
  "length (rankDocs (enat n) q R) \<le> n
   \<and> prefix (rankDocs (enat n) q R) (rankDocs \<infinity> q R)"
  by (simp add: rankDocs_def slice0_def take_map [symmetric] take_is_prefix)

text \<open>C6 at the limit 1.\<close>

theorem C6_limit_is_prefix_witness:
  "rankDocs (enat 1) ''fire'' [ex_guide, ex_fired, ex_fire] = [ex_fire]
   \<and> rankDocs \<infinity> ''fire'' [ex_guide, ex_fired, ex_fire] = [ex_fire, ex_fired]
   \<and> length (rankDocs (enat 1) ''fire'' [ex_guide, ex_fired, ex_fire]) \<le> 1
   \<and> prefix (rankDocs (enat 1) ''fire'' [ex_guide, ex_fired, ex_fire])
        (rankDocs \<infinity> ''fire'' [ex_guide, ex_fired, ex_fire])"
proof -
  have a: "rankDocs (enat 1) ''fire'' [ex_guide, ex_fired, ex_fire] = [ex_fire]"
    by (simp add: rankDocs_def trim_def isSpace_def toLowerCase_def toLowerChar_def
      char_of_eq_iff scoreDoc_def descriptionMatch_def keywordMatch_def categoryMatch_def
      typeMatch_def matchScore_def titlePart_def isSeparator_def categoryMultiplier_def
      sortResults_def slice0_def ex_guide_def ex_fired_def ex_fire_def)
  have b: "rankDocs \<infinity> ''fire'' [ex_guide, ex_fired, ex_fire] = [ex_fire, ex_fired]"
    by (simp add: rankDocs_def trim_def isSpace_def toLowerCase_def toLowerChar_def
      char_of_eq_iff scoreDoc_def descriptionMatch_def keywordMatch_def categoryMatch_def
      typeMatch_def matchScore_def titlePart_def isSeparator_def categoryMultiplier_def
      sortResults_def slice0_def ex_guide_def ex_fired_def ex_fire_def)
  from a b C6_limit_is_prefix [of 1 "''fire''" "[ex_guide, ex_fired, ex_fire]"]
  show ?thesis by simp
qed


section \<open>Properties of the Cache Store and of the fetch operations\<close>

lemma fetchFreshData_keeps_checks:
  "last_update_check (snd (fetchFreshData net P env st)) = last_update_check st
   \<and> background_checks (snd (fetchFreshData net P env st)) = background_checks st"
  by (auto simp: fetchFreshData_def fetchFreshData_try_def Let_def split: sum.splits)

lemma fetchFreshData_never_rejects: "\<exists>docs. fst (fetchFreshData net P env st) = Inr docs"
  by (auto simp: fetchFreshData_def Let_def split: sum.splits)

lemma getCachedData_ignores_version:
  "getCachedData (env\<lparr>extensionVersion := v\<rparr>) st = getCachedData env st"
  by (simp add: getCachedData_def split: option.splits stored.splits)

text \<open>
  C1 says that a read treats an entry as absent when the extension version it was stored
  under is not the running one. Neither the stored object nor \<open>getCachedData\<close> has
  anything to do with the extension's version: an entry stored by a fetch under version
  1.0.0 at time 1000 is returned by a read under version 1.0.1 at time 5000.
\<close>

theorem C1_entry_of_other_version_is_served:
  "map_option timestamp
     (getCachedData \<lparr>now = 5000, extensionVersion = ''1.0.1''\<rparr>
        (snd (fetchFreshData ex_net ex_parsers \<lparr>now = 1000, extensionVersion = ''1.0.0''\<rparr>
                ex_state0)))
   = Some 1000
   \<and> map_option (map doc_title \<circ> data)
     (getCachedData \<lparr>now = 5000, extensionVersion = ''1.0.1''\<rparr>
        (snd (fetchFreshData ex_net ex_parsers \<lparr>now = 1000, extensionVersion = ''1.0.0''\<rparr>
                ex_state0)))
   = Some [''Part'', ''Size'', ''Part:Resize'', ''Introduction'']"
  by code_simp

text \<open>
  C2 says that the failure to open the archive reaches the caller of the refresh. With bytes
  that are no archive, \<open>processZipArchiveOptimized\<close> throws, but \<open>fetchFreshData\<close>
  and \<open>fetchDocsData\<close> (here with an expired cache entry) resolve to the empty list.
\<close>

theorem C2_counterexample:
  "processZipArchiveOptimized (loadAsync ex_bad_net) ex_parsers [60, 104, 116]
     = Inl (Error ''not a zip file'')
   \<and> fetchFreshData ex_bad_net ex_parsers \<lparr>now = 100000000, extensionVersion = ''1.0.1''\<rparr> ex_cached
     = (Inr [], ex_cached)
   \<and> fetchDocsData ex_bad_net ex_parsers \<lparr>now = 100000000, extensionVersion = ''1.0.1''\<rparr> ex_cached
     = (Inr [], ex_cached)"
  by (simp add: processZipArchiveOptimized_def ex_bad_net_def ex_loadAsync_def fetchFreshData_def
      fetchFreshData_try_def fetchDocsData_def getCachedData_def ex_cached_def cacheExpiry_def)

text \<open>
  C2 (amended). When the downloaded bytes cannot be opened as an archive,
  \<open>processZipArchiveOptimized\<close> throws the error on to \<open>fetchFreshData\<close>, which catches
  it and resolves to the empty Record list, leaving the state as it was; \<open>fetchDocsData\<close>
  does not reject either, and the cache entry is neither cleared nor overwritten.
\<close>

theorem C2_archive_failure_is_an_empty_result:
  assumes "main_zip net = Inr zipResponse" and "ok zipResponse"
    and "body zipResponse = Inr zipBuffer" and "loadAsync net zipBuffer = Inl e"
  shows "processZipArchiveOptimized (loadAsync net) P zipBuffer = Inl e
     \<and> fetchFreshData net P env st = (Inr [], st)
     \<and> (\<exists>docs. fst (fetchDocsData net P env st) = Inr docs)
     \<and> docs_data (snd (fetchDocsData net P env st)) = docs_data st"
proof -
  have a: "processZipArchiveOptimized (loadAsync net) P zipBuffer = Inl e"
    using assms by (simp add: processZipArchiveOptimized_def)
  have b: "fetchFreshData net P env st = (Inr [], st)"
    using assms a by (simp add: fetchFreshData_def fetchFreshData_try_def)
  have c: "\<exists>docs. fst (fetchDocsData net P env st) = Inr docs"
    using b by (auto simp: fetchDocsData_def split: option.splits)
  have d: "docs_data (snd (fetchDocsData net P env st)) = docs_data st"
    using b by (auto simp: fetchDocsData_def checkForUpdatesInBackground_def Let_def
        split: option.splits)
  from a b c d show ?thesis by blast
qed

text \<open>
  The amended C2 at a network that serves three bytes that are no archive, with a valid cache entry.
\<close>

theorem C2_archive_failure_is_an_empty_result_witness:
  "main_zip ex_bad_net = Inr \<lparr>ok = True, statusText = ''OK'', body = Inr [60, 104, 116]\<rparr>
   \<and> loadAsync ex_bad_net [60, 104, 116] = Inl (Error ''not a zip file'')
   \<and> fetchFreshData ex_bad_net ex_parsers \<lparr>now = 2000, extensionVersion = ''1.0.1''\<rparr> ex_cached
       = (Inr [], ex_cached)
   \<and> docs_data (snd (fetchDocsData ex_bad_net ex_parsers
         \<lparr>now = 2000, extensionVersion = ''1.0.1''\<rparr> ex_cached)) = docs_data ex_cached"
proof -
  have h1: "main_zip ex_bad_net = Inr \<lparr>ok = True, statusText = ''OK'', body = Inr [60, 104, 116]\<rparr>"
    by (simp add: ex_bad_net_def)
  have h2: "ok \<lparr>ok = True, statusText = ''OK'', body = (Inr [60, 104, 116] :: js_error + buffer)\<rparr>"
    by simp
  have h3: "body \<lparr>ok = True, statusText = ''OK'', body = (Inr [60, 104, 116] :: js_error + buffer)\<rparr>
      = Inr [60, 104, 116]"
    by simp
  have h4: "loadAsync ex_bad_net [60, 104, 116] = Inl (Error ''not a zip file'')"
    by (simp add: ex_bad_net_def ex_loadAsync_def)
  from C2_archive_failure_is_an_empty_result [OF h1 h2 h3 h4] h1 h4 show ?thesis by blast
qed

section \<open>Properties of the Extractor and of the Archive Processor\<close>

text \<open>
  C7 says that no two Records of one fetch cycle share an id. An archive with one class
  file whose property \<open>Foo.Bar\<close> and method \<open>Foo:Bar\<close> differ only in the separator
  gives two Records with the id \<open>reference-engine-classes-foo-foo-bar\<close>.
\<close>

theorem C7_two_records_one_id:
  "map_sum id (map doc_title)
     (processZipArchiveOptimized (ex_open [ex_foo_file]) ex_parsers [80, 75, 3, 4])
   = Inr [''Foo'', ''Foo.Bar'', ''Foo:Bar'']
   \<and> map_sum id (map doc_id)
     (processZipArchiveOptimized (ex_open [ex_foo_file]) ex_parsers [80, 75, 3, 4])
   = Inr [''reference-engine-classes-foo'',
          ''reference-engine-classes-foo-foo-bar'',
          ''reference-engine-classes-foo-foo-bar'']"
  by code_simp

text \<open>
  C8 says that every stored description has at most 203 characters. A property without
  a summary, in a class whose name has 200 characters, gets a generated description of
  213 characters that ends in the name; the Record of the class has the empty
  description.
\<close>

theorem C8_counterexample:
  "map_sum id (map (length \<circ> doc_description))
     (processZipArchiveOptimized (ex_open [ex_long_file]) ex_parsers [80, 75, 3, 4])
   = Inr [0, 213]"
  by code_simp

text \<open>
  C3 says that the title of a sub-entry is joined with the owner's name. The property
  \<open>Size\<close> of the class \<open>Part\<close> keeps the title \<open>Size\<close>.
\<close>

theorem C3_counterexample:
  "map_sum id (map doc_title)
     (processZipArchiveOptimized (ex_open [ex_part_file]) ex_parsers [80, 75, 3, 4])
   = Inr [''Part'', ''Size'', ''Part:Resize'']"
  by code_simp

subsection \<open>Where a sub-entry Record comes from\<close>

lemma categorySubitems_origin:
  assumes "s \<in> set (categorySubitems ydata key items)"
  shows "\<exists>item\<in>set items. \<not> isDeprecated item
      \<and> s = \<lparr>sub_type = key, sub_title = subitemTitle ydata item,
               sub_description = Some (truncateDescription (item_summary item))\<rparr>"
  using assms by (induction items) (auto split: if_splits)

lemma extractSubitems_origin:
  assumes "s \<in> set (extractSubitems ydata keys)"
  shows "\<exists>key\<in>set keys. \<exists>items. yamlSection ydata key = Some items
      \<and> (\<exists>item\<in>set (take 50 items). \<not> isDeprecated item
           \<and> s = \<lparr>sub_type = key, sub_title = subitemTitle ydata item,
                    sub_description = Some (truncateDescription (item_summary item))\<rparr>)"
  using assms
proof (induction keys)
  case Nil
  then show ?case by simp
next
  case (Cons key keys)
  show ?case
  proof (cases "yamlSection ydata key")
    case None
    with Cons show ?thesis by auto
  next
    case (Some keyData)
    with Cons.prems consider "s \<in> set (categorySubitems ydata key (take 50 keyData))"
      | "s \<in> set (extractSubitems ydata keys)" by auto
    then show ?thesis
    proof cases
      case 1
      from categorySubitems_origin [OF 1] Some show ?thesis by auto
    next
      case 2
      with Cons.IH show ?thesis by auto
    qed
  qed
qed

lemma subitemRecords_origin:
  assumes "r \<in> set (subitemRecords subitems metadata)"
  shows "\<exists>s\<in>set subitems. subitemToDocItem s metadata = Some r"
  using assms by (induction subitems) (auto split: option.splits)

lemma subitemToDocItem_title:
  "subitemToDocItem s metadata = Some r \<Longrightarrow> doc_title r = sub_title s"
  by (auto simp: subitemToDocItem_def Let_def split: if_splits)

lemma subitemToDocItem_description:
  assumes "subitemToDocItem s metadata = Some r"
  shows "doc_description r =
     (if sub_description s = None \<or> sub_description s = Some []
      then butlast (sub_type s) @ '' of '' @
           (case md_title metadata of None \<Rightarrow> ''undefined'' | Some t \<Rightarrow> t)
      else (case sub_description s of None \<Rightarrow> [] | Some d \<Rightarrow> d))"
  using assms by (auto simp: subitemToDocItem_def Let_def split: if_splits option.splits)

lemma parseYamlFile_Some:
  assumes "parseYamlFile P filePath url content = Some metadata"
  shows "\<exists>ydata n. yamlLoad P content = YamlDoc ydata \<and> y_name ydata = Some n \<and> n \<noteq> []
      \<and> md_title metadata = Some n
      \<and> md_description metadata = Some (truncateDescription (y_summary ydata))
      \<and> md_subitems metadata = Some (extractSubitems ydata ENGINE_REF_ITEMS)"
  using assms by (auto simp: parseYamlFile_def split: yaml_result.splits option.splits if_splits)

lemma subentry_record_origin:
  assumes "yamlLoad P content = YamlDoc ydata"
    and "parseYamlFile P filePath url content = Some metadata"
    and "md_subitems metadata = Some subitems"
    and "r \<in> set (subitemRecords subitems metadata)"
  shows "\<exists>owner. y_name ydata = Some owner \<and> md_title metadata = Some owner
      \<and> (\<exists>key\<in>set ENGINE_REF_ITEMS. \<exists>items. yamlSection ydata key = Some items
           \<and> (\<exists>item\<in>set (take 50 items). \<not> isDeprecated item
                \<and> doc_title r = subitemTitle ydata item))"
proof -
  from parseYamlFile_Some [OF assms(2)] assms(1,3) obtain n where
    n: "y_name ydata = Some n" "md_title metadata = Some n"
    and subs: "subitems = extractSubitems ydata ENGINE_REF_ITEMS"
    by auto
  from subitemRecords_origin [OF assms(4)] obtain s where
    s: "s \<in> set subitems" and r: "subitemToDocItem s metadata = Some r"
    by blast
  from s subs extractSubitems_origin [of s ydata ENGINE_REF_ITEMS] obtain key items item where
    k: "key \<in> set ENGINE_REF_ITEMS" "yamlSection ydata key = Some items"
       "item \<in> set (take 50 items)" "\<not> isDeprecated item"
       "sub_title s = subitemTitle ydata item"
    by fastforce
  from subitemToDocItem_title [OF r] k(5) have "doc_title r = subitemTitle ydata item" by simp
  with n k show ?thesis by blast
qed

text \<open>
  C3 (amended). Every sub-entry Record of a structured definition document has, as its
  title, \<open>Owner.Member\<close> when the type of the owning entity is \<open>enum\<close>, and the
  sub-entry's own name, as the document gives it, otherwise.
\<close>

theorem C3_subentry_title:
  assumes "yamlLoad P content = YamlDoc ydata"
    and "parseYamlFile P filePath url content = Some metadata"
    and "md_subitems metadata = Some subitems"
    and "r \<in> set (subitemRecords subitems metadata)"
  shows "\<exists>owner. y_name ydata = Some owner
      \<and> (\<exists>key\<in>set ENGINE_REF_ITEMS. \<exists>items. yamlSection ydata key = Some items
           \<and> (\<exists>item\<in>set items.
                doc_title r = (if y_type ydata = Some ''enum''
                               then owner @ ''.'' @ item_name item
                               else item_name item)))"
proof -
  from subentry_record_origin [OF assms] obtain owner key items item where
    o: "y_name ydata = Some owner" and k: "key \<in> set ENGINE_REF_ITEMS"
    and i: "yamlSection ydata key = Some items" "item \<in> set (take 50 items)"
    and t: "doc_title r = subitemTitle ydata item"
    by blast
  from i(2) have "item \<in> set items" by (rule in_set_takeD)
  moreover from t o have "doc_title r = (if y_type ydata = Some ''enum''
      then owner @ ''.'' @ item_name item else item_name item)"
    by (simp add: subitemTitle_def)
  ultimately show ?thesis using o k i(1) by blast
qed

text \<open>
  The amended C3 at the item \<open>A\<close> of the enum \<open>KeyCode\<close>.
\<close>

theorem C3_subentry_title_witness:
  "yamlLoad ex_parsers ''keycode'' = YamlDoc ex_keycode
   \<and> parseYamlFile ex_parsers (relativePath ex_keycode_file)
         ''content/en-us/reference/engine/enums/KeyCode.yaml'' ''keycode'' = Some ex_keycode_md
   \<and> ex_keycode_a \<in> set (subitemRecords
         [\<lparr>sub_type = ''items'', sub_title = ''KeyCode.A'', sub_description = Some ''The A key''\<rparr>]
         ex_keycode_md)
   \<and> doc_title ex_keycode_a = ''KeyCode.A''
   \<and> (\<exists>owner. y_name ex_keycode = Some owner
      \<and> (\<exists>key\<in>set ENGINE_REF_ITEMS. \<exists>items. yamlSection ex_keycode key = Some items
           \<and> (\<exists>item\<in>set items.
                doc_title ex_keycode_a = (if y_type ex_keycode = Some ''enum''
                               then owner @ ''.'' @ item_name item
                               else item_name item))))"
proof -
  have h1: "yamlLoad ex_parsers ''keycode'' = YamlDoc ex_keycode"
    by (simp add: ex_parsers_def)
  have h2: "parseYamlFile ex_parsers (relativePath ex_keycode_file)
      ''content/en-us/reference/engine/enums/KeyCode.yaml'' ''keycode'' = Some ex_keycode_md"
    by code_simp
  have h3: "md_subitems ex_keycode_md = Some
      [\<lparr>sub_type = ''items'', sub_title = ''KeyCode.A'', sub_description = Some ''The A key''\<rparr>]"
    by (simp add: ex_keycode_md_def)
  have h4: "ex_keycode_a \<in> set (subitemRecords
      [\<lparr>sub_type = ''items'', sub_title = ''KeyCode.A'', sub_description = Some ''The A key''\<rparr>]
      ex_keycode_md)"
    by code_simp
  have t: "doc_title ex_keycode_a = ''KeyCode.A''"
    by (simp add: ex_keycode_a_def)
  from C3_subentry_title [OF h1 h2 h3 h4] h1 h2 h4 t show ?thesis by blast
qed

text \<open>
  C9. Every sub-entry Record of a structured definition document comes from a sub-entry
  (among the first 50 of its category) that is not tagged \<open>Deprecated\<close>: a sub-entry
  with the tag is dropped at extraction and gives no Record.
\<close>

theorem C9_deprecated_subentries_dropped:
  assumes "yamlLoad P content = YamlDoc ydata"
    and "parseYamlFile P filePath url content = Some metadata"
    and "md_subitems metadata = Some subitems"
    and "r \<in> set (subitemRecords subitems metadata)"
  shows "\<exists>key\<in>set ENGINE_REF_ITEMS. \<exists>items. yamlSection ydata key = Some items
      \<and> (\<exists>item\<in>set (take 50 items).
            \<not> isDeprecated item \<and> doc_title r = subitemTitle ydata item)"
  using subentry_record_origin [OF assms] by blast

text \<open>
  C9 at the class \<open>Part\<close>: the Records of \<open>Size\<close> and \<open>Part:Resize\<close> are there, the
  deprecated \<open>Part.FormFactor\<close> is not.
\<close>

theorem C9_deprecated_subentries_dropped_witness:
  "yamlLoad ex_parsers ''part'' = YamlDoc ex_part
   \<and> parseYamlFile ex_parsers (relativePath ex_part_file)
         ''content/en-us/reference/engine/classes/Part.yaml'' ''part'' = Some ex_part_md
   \<and> ex_part_size \<in> set (subitemRecords
         [\<lparr>sub_type = ''properties'', sub_title = ''Size'',
            sub_description = Some ''The size of the part''\<rparr>,
          \<lparr>sub_type = ''methods'', sub_title = ''Part:Resize'', sub_description = Some ''''\<rparr>]
         ex_part_md)
   \<and> (\<exists>key\<in>set ENGINE_REF_ITEMS. \<exists>items. yamlSection ex_part key = Some items
      \<and> (\<exists>item\<in>set (take 50 items).
            \<not> isDeprecated item \<and> doc_title ex_part_size = subitemTitle ex_part item))
   \<and> map doc_title (subitemRecords
         [\<lparr>sub_type = ''properties'', sub_title = ''Size'',
            sub_description = Some ''The size of the part''\<rparr>,
          \<lparr>sub_type = ''methods'', sub_title = ''Part:Resize'', sub_description = Some ''''\<rparr>]
         ex_part_md) = [''Size'', ''Part:Resize'']"
proof -
  have h1: "yamlLoad ex_parsers ''part'' = YamlDoc ex_part"
    by (simp add: ex_parsers_def)
  have h2: "parseYamlFile ex_parsers (relativePath ex_part_file)
      ''content/en-us/reference/engine/classes/Part.yaml'' ''part'' = Some ex_part_md"
    by code_simp
  have h3: "md_subitems ex_part_md = Some
      [\<lparr>sub_type = ''properties'', sub_title = ''Size'',
         sub_description = Some ''The size of the part''\<rparr>,
       \<lparr>sub_type = ''methods'', sub_title = ''Part:Resize'', sub_description = Some ''''\<rparr>]"
    by (simp add: ex_part_md_def)
  have h4: "ex_part_size \<in> set (subitemRecords
      [\<lparr>sub_type = ''properties'', sub_title = ''Size'',
         sub_description = Some ''The size of the part''\<rparr>,
       \<lparr>sub_type = ''methods'', sub_title = ''Part:Resize'', sub_description = Some ''''\<rparr>]
      ex_part_md)"
    by code_simp
  have t: "map doc_title (subitemRecords
      [\<lparr>sub_type = ''properties'', sub_title = ''Size'',
         sub_description = Some ''The size of the part''\<rparr>,
       \<lparr>sub_type = ''methods'', sub_title = ''Part:Resize'', sub_description = Some ''''\<rparr>]
      ex_part_md) = [''Size'', ''Part:Resize'']"
    by code_simp
  from C9_deprecated_subentries_dropped [OF h1 h2 h3 h4] h1 h2 h4 t show ?thesis by blast
qed

subsection \<open>The Records of an archive\<close>

text \<open>The batches do not show in the result: it is the Records of the relevant files,
  in the order of the archive.\<close>

lemma batchRecords_append:
  "batchRecords P (xs @ ys) = batchRecords P xs @ batchRecords P ys"
  by (simp add: batchRecords_def List.map_filter_def)

lemma processBatches_flat:
  "processBatches P relevantFiles i docItems = docItems @ batchRecords P (drop i relevantFiles)"
proof (induction P relevantFiles i docItems rule: processBatches.induct)
  case (1 P relevantFiles i docItems)
  show ?case
  proof (cases "i < length relevantFiles")
    case True
    have "take BATCH_SIZE (drop i relevantFiles) @ drop (i + BATCH_SIZE) relevantFiles
        = drop i relevantFiles"
      by (metis add.commute append_take_drop_id drop_drop)
    then have "batchRecords P (drop i relevantFiles) =
        batchRecords P (take BATCH_SIZE (drop i relevantFiles))
        @ batchRecords P (drop (i + BATCH_SIZE) relevantFiles)"
      by (metis batchRecords_append)
    with True "1.IH" show ?thesis by (subst processBatches.simps) simp
  next
    case False
    then show ?thesis by (subst processBatches.simps) (simp add: batchRecords_def List.map_filter_def)
  qed
qed

lemma processZipArchiveOptimized_flat:
  "processZipArchiveOptimized open_zip P zipBuffer = Inr docItems \<Longrightarrow>
   \<exists>entries. open_zip zipBuffer = Inr entries
     \<and> docItems = batchRecords P (filter isRelevant entries)"
  by (auto simp: processZipArchiveOptimized_def processBatches_flat split: sum.splits)

lemma set_batchRecords:
  "set (batchRecords P batch) =
     (\<Union>e\<in>set batch. case fileMetadata P e of None \<Rightarrow> {} | Some m \<Rightarrow> set (metadataRecords m))"
  by (induction batch) (auto simp: batchRecords_def List.map_filter_def split: option.splits)

subsection \<open>The description of a Record\<close>

text \<open>\<open>truncateDescription\<close> holds the source text of a field to the length cap.\<close>

lemma truncateDescription_capped: "truncateDescription d = capped (sourceText d)"
  by (auto simp: truncateDescription_def capped_def sourceText_def split: option.splits)

lemma length_capped: "length (capped s) \<le> 203"
  by (simp add: capped_def)

lemma capped_eq_Nil: "capped s = [] \<longleftrightarrow> s = []"
  by (auto simp: capped_def)

lemma parseMarkdownFile_description:
  assumes "parseMarkdownFile P filePath url content = Some m"
    and "r \<in> set (metadataRecords m)"
  shows "doc_description r =
     (case readFrontmatter P content of
        Frontmatter t d \<Rightarrow> capped (sourceText d)
      | _ \<Rightarrow> [])"
proof -
  from assms(1) have subs: "md_subitems m = None"
    by (auto simp: parseMarkdownFile_def Let_def split: frontmatter.splits)
  from assms(1) have d: "(case md_description m of None \<Rightarrow> [] | Some d \<Rightarrow> d) =
     (case readFrontmatter P content of
        Frontmatter t d \<Rightarrow> capped (sourceText d)
      | _ \<Rightarrow> [])"
    by (auto simp: parseMarkdownFile_def Let_def truncateDescription_capped
        split: frontmatter.splits)
  from assms(2) subs have "metadataToDocItem m = Some r"
    by (cases "metadataToDocItem m") (auto simp: metadataRecords_def)
  then have "doc_description r = (case md_description m of None \<Rightarrow> [] | Some d \<Rightarrow> d)"
    by (auto simp: metadataToDocItem_def Let_def split: option.splits if_splits)
  with d show ?thesis by simp
qed

lemma parseYamlFile_description:
  assumes "parseYamlFile P filePath url content = Some m"
    and "r \<in> set (metadataRecords m)"
  shows "\<exists>ydata owner. yamlLoad P content = YamlDoc ydata \<and> y_name ydata = Some owner
     \<and> ((doc_title r = owner \<and> doc_description r = capped (sourceText (y_summary ydata)))
        \<or> (\<exists>key\<in>set ENGINE_REF_ITEMS. \<exists>items. yamlSection ydata key = Some items
             \<and> (\<exists>item\<in>set (take 50 items). \<not> isDeprecated item
                  \<and> doc_title r = subitemTitle ydata item
                  \<and> (if sourceText (item_summary item) = []
                      then \<exists>g. doc_description r = g @ '' of '' @ owner
                      else doc_description r = capped (sourceText (item_summary item))))))"
proof -
  from parseYamlFile_Some [OF assms(1)] obtain ydata n where
    y: "yamlLoad P content = YamlDoc ydata" "y_name ydata = Some n"
    and t: "md_title m = Some n"
    and d: "md_description m = Some (truncateDescription (y_summary ydata))"
    and s: "md_subitems m = Some (extractSubitems ydata ENGINE_REF_ITEMS)"
    by blast
  from assms(2) obtain docItem where di: "metadataToDocItem m = Some docItem"
    by (cases "metadataToDocItem m") (auto simp: metadataRecords_def)
  from assms(2) di s consider "r = docItem"
    | "r \<in> set (subitemRecords (extractSubitems ydata ENGINE_REF_ITEMS) m)"
    by (auto simp: metadataRecords_def)
  then show ?thesis
  proof cases
    case 1
    with di t d have "doc_title r = n"
      and "doc_description r = capped (sourceText (y_summary ydata))"
      by (auto simp: metadataToDocItem_def Let_def truncateDescription_capped split: if_splits)
    with y show ?thesis by blast
  next
    case 2
    from subitemRecords_origin [OF 2] obtain sub where
      sub: "sub \<in> set (extractSubitems ydata ENGINE_REF_ITEMS)"
      and r: "subitemToDocItem sub m = Some r" by blast
    from extractSubitems_origin [OF sub] obtain key items item where
      k: "key \<in> set ENGINE_REF_ITEMS" "yamlSection ydata key = Some items"
         "item \<in> set (take 50 items)" "\<not> isDeprecated item"
      and e: "sub = \<lparr>sub_type = key, sub_title = subitemTitle ydata item,
                sub_description = Some (truncateDescription (item_summary item))\<rparr>"
      by blast
    from subitemToDocItem_title [OF r] e have ti: "doc_title r = subitemTitle ydata item"
      by simp
    have de: "if sourceText (item_summary item) = []
        then \<exists>g. doc_description r = g @ '' of '' @ n
        else doc_description r = capped (sourceText (item_summary item))"
    proof (cases "sourceText (item_summary item) = []")
      case True
      then have "sub_description sub = Some []"
        using e by (simp add: truncateDescription_capped capped_eq_Nil)
      with subitemToDocItem_description [OF r] t
      have "doc_description r = butlast (sub_type sub) @ '' of '' @ n" by simp
      with True show ?thesis by auto
    next
      case False
      then have "sub_description sub = Some (capped (sourceText (item_summary item)))"
        and "capped (sourceText (item_summary item)) \<noteq> []"
        using e by (simp_all add: truncateDescription_capped capped_eq_Nil)
      with subitemToDocItem_description [OF r]
      have "doc_description r = capped (sourceText (item_summary item))" by simp
      with False show ?thesis by simp
    qed
    from y k ti de show ?thesis by blast
  qed
qed

text \<open>
  C8 (amended). Every Record of the processed archive comes from a relevant file of the
  archive, and its description is determined by where it comes from. A description
  taken from source text (the description of a prose file's header, the summary of a
  definition, the summary of a sub-entry) is that text held to the length cap: at most
  200 characters of it plus the ellipsis marker, 203 characters at most; a parent-level
  Record without such a text has the empty description. A sub-entry Record whose
  sub-entry has no summary, or an empty one, has a generated description instead, which
  ends in \<open> of \<close> followed by the name of the owning entity and is not held to the cap.
\<close>

theorem C8_description_by_origin:
  assumes "open_zip zipBuffer = Inr entries"
    and "processZipArchiveOptimized open_zip P zipBuffer = Inr docItems"
    and "r \<in> set docItems"
  shows "\<exists>e\<in>set entries. \<exists>content. isRelevant e \<and> text_content e = Some content
     \<and> ((endsWith (relativePath e) ''.md''
          \<and> doc_description r =
               (case readFrontmatter P content of
                  Frontmatter t d \<Rightarrow> capped (sourceText d)
                | _ \<Rightarrow> []))
        \<or> (endsWith (relativePath e) ''.yaml''
          \<and> (\<exists>ydata owner. yamlLoad P content = YamlDoc ydata \<and> y_name ydata = Some owner
             \<and> ((doc_title r = owner
                  \<and> doc_description r = capped (sourceText (y_summary ydata)))
                \<or> (\<exists>key\<in>set ENGINE_REF_ITEMS. \<exists>items. yamlSection ydata key = Some items
                     \<and> (\<exists>item\<in>set (take 50 items). \<not> isDeprecated item
                          \<and> doc_title r = subitemTitle ydata item
                          \<and> (if sourceText (item_summary item) = []
                              then \<exists>g. doc_description r = g @ '' of '' @ owner
                              else doc_description r =
                                     capped (sourceText (item_summary item)))))))))"
proof -
  from processZipArchiveOptimized_flat [OF assms(2)] assms(1)
  have "docItems = batchRecords P (filter isRelevant entries)" by auto
  with assms(3) obtain e m where
    e: "e \<in> set entries" "isRelevant e" "fileMetadata P e = Some m"
    and r: "r \<in> set (metadataRecords m)"
    by (auto simp: set_batchRecords split: option.splits)
  from e(3) obtain content url where c: "text_content e = Some content"
    and p: "(endsWith (relativePath e) ''.md''
              \<and> parseMarkdownFile P (relativePath e) url content = Some m)
          \<or> (endsWith (relativePath e) ''.yaml''
              \<and> parseYamlFile P (relativePath e) url content = Some m)"
    by (auto simp: fileMetadata_def Let_def split: option.splits if_splits)
  from p show ?thesis
  proof
    assume a: "endsWith (relativePath e) ''.md''
        \<and> parseMarkdownFile P (relativePath e) url content = Some m"
    then have "doc_description r =
        (case readFrontmatter P content of
           Frontmatter t d \<Rightarrow> capped (sourceText d)
         | _ \<Rightarrow> [])"
      using parseMarkdownFile_description r by blast
    with a e c show ?thesis by blast
  next
    assume a: "endsWith (relativePath e) ''.yaml''
        \<and> parseYamlFile P (relativePath e) url content = Some m"
    then have "parseYamlFile P (relativePath e) url content = Some m" by simp
    from parseYamlFile_description [OF this r] a e c show ?thesis by blast
  qed
qed

text \<open>
  The amended C8 at the archive with the file \<open>Lamp.yaml\<close>: the summary of 201
  characters is stored as 200 characters and the ellipsis marker, and the property
  without a summary gets a generated description that ends in \<open> of Lamp\<close>.
\<close>

theorem C8_description_by_origin_witness:
  "ex_open [ex_lamp_file] [80, 75, 3, 4] = Inr [ex_lamp_file]
   \<and> processZipArchiveOptimized (ex_open [ex_lamp_file]) ex_parsers [80, 75, 3, 4]
       = Inr [ex_lamp_parent, ex_lamp_color]
   \<and> sourceText (y_summary ex_lamp) = replicate 201 (CHR ''x'')
   \<and> doc_description ex_lamp_parent = capped (replicate 201 (CHR ''x''))
   \<and> doc_description ex_lamp_parent = replicate 200 (CHR ''x'') @ ''...''
   \<and> (\<exists>g. doc_description ex_lamp_color = g @ '' of '' @ ''Lamp'')
   \<and> (\<exists>e\<in>set [ex_lamp_file]. \<exists>content. isRelevant e \<and> text_content e = Some content
     \<and> ((endsWith (relativePath e) ''.md''
          \<and> doc_description ex_lamp_color =
               (case readFrontmatter ex_parsers content of
                  Frontmatter t d \<Rightarrow> capped (sourceText d)
                | _ \<Rightarrow> []))
        \<or> (endsWith (relativePath e) ''.yaml''
          \<and> (\<exists>ydata owner. yamlLoad ex_parsers content = YamlDoc ydata \<and> y_name ydata = Some owner
             \<and> ((doc_title ex_lamp_color = owner
                  \<and> doc_description ex_lamp_color = capped (sourceText (y_summary ydata)))
                \<or> (\<exists>key\<in>set ENGINE_REF_ITEMS. \<exists>items. yamlSection ydata key = Some items
                     \<and> (\<exists>item\<in>set (take 50 items). \<not> isDeprecated item
                          \<and> doc_title ex_lamp_color = subitemTitle ydata item
                          \<and> (if sourceText (item_summary item) = []
                              then \<exists>g. doc_description ex_lamp_color = g @ '' of '' @ owner
                              else doc_description ex_lamp_color =
                                     capped (sourceText (item_summary item))))))))))
   \<and> (\<exists>e\<in>set [ex_lamp_file]. \<exists>content. isRelevant e \<and> text_content e = Some content
     \<and> ((endsWith (relativePath e) ''.md''
          \<and> doc_description ex_lamp_parent =
               (case readFrontmatter ex_parsers content of
                  Frontmatter t d \<Rightarrow> capped (sourceText d)
                | _ \<Rightarrow> []))
        \<or> (endsWith (relativePath e) ''.yaml''
          \<and> (\<exists>ydata owner. yamlLoad ex_parsers content = YamlDoc ydata \<and> y_name ydata = Some owner
             \<and> ((doc_title ex_lamp_parent = owner
                  \<and> doc_description ex_lamp_parent = capped (sourceText (y_summary ydata)))
                \<or> (\<exists>key\<in>set ENGINE_REF_ITEMS. \<exists>items. yamlSection ydata key = Some items
                     \<and> (\<exists>item\<in>set (take 50 items). \<not> isDeprecated item
                          \<and> doc_title ex_lamp_parent = subitemTitle ydata item
                          \<and> (if sourceText (item_summary item) = []
                              then \<exists>g. doc_description ex_lamp_parent = g @ '' of '' @ owner
                              else doc_description ex_lamp_parent =
                                     capped (sourceText (item_summary item))))))))))"
proof -
  have h1: "ex_open [ex_lamp_file] [80, 75, 3, 4] = Inr [ex_lamp_file]"
    by (simp add: ex_open_def)
  have h2: "processZipArchiveOptimized (ex_open [ex_lamp_file]) ex_parsers [80, 75, 3, 4]
       = Inr [ex_lamp_parent, ex_lamp_color]"
    by code_simp
  have h3: "ex_lamp_color \<in> set [ex_lamp_parent, ex_lamp_color]" by simp
  have h4: "ex_lamp_parent \<in> set [ex_lamp_parent, ex_lamp_color]" by simp
  have s: "sourceText (y_summary ex_lamp) = replicate 201 (CHR ''x'')"
    by (simp add: sourceText_def ex_lamp_def)
  have c: "doc_description ex_lamp_parent = capped (replicate 201 (CHR ''x''))"
    by code_simp
  have d: "doc_description ex_lamp_parent = replicate 200 (CHR ''x'') @ ''...''"
    by (simp add: ex_lamp_parent_def)
  have "doc_description ex_lamp_color = ''propertie'' @ '' of '' @ ''Lamp''"
    by (simp add: ex_lamp_color_def)
  then have g: "\<exists>g. doc_description ex_lamp_color = g @ '' of '' @ ''Lamp''" by blast
  note a = C8_description_by_origin [OF h1 h2 h3]
  note b = C8_description_by_origin [OF h1 h2 h4]
  show ?thesis by (intro conjI) (fact h1 h2 s c d g a b)+
qed

subsection \<open>A cached entry without Records\<close>

text \<open>What \<open>fetchFreshData\<close> does when the download succeeds and the archive opens: it
  returns the Records of the archive and stores them with the version identifier and
  the time.\<close>

lemma fetchFreshData_success:
  assumes "main_zip net = Inr zipResponse" and "ok zipResponse"
    and "body zipResponse = Inr zipBuffer" and "loadAsync net zipBuffer = Inr entries"
  shows "fetchFreshData net P env st =
     (Inr (batchRecords P (filter isRelevant entries)),
      st\<lparr>docs_data := Some (Parsed \<lparr>data = batchRecords P (filter isRelevant entries),
                                       sha = getLatestCommitSha net,
                                       timestamp = now env\<rparr>)\<rparr>)"
  using assms
  by (simp add: fetchFreshData_def fetchFreshData_try_def processZipArchiveOptimized_def
      processBatches_flat)

text \<open>
  C10. When the cache holds a valid, unexpired entry whose Record list is empty,
  \<open>fetchDocsData\<close> does not return the cached list but does what the blocking
  \<open>fetchFreshData\<close> does: whenever the download succeeds and the archive opens, the
  result is the Records extracted from the served archive, and the cache entry is
  rewritten with them, the latest version identifier and the current time. No
  background update check is made: no version request is fired and the time of the
  last check is not written.
\<close>

theorem C10_empty_cached_list_is_refetched:
  assumes "getCachedData env st = Some cachedData" and "data cachedData = []"
  shows "fetchDocsData net P env st = fetchFreshData net P env st
     \<and> background_checks (snd (fetchDocsData net P env st)) = background_checks st
     \<and> last_update_check (snd (fetchDocsData net P env st)) = last_update_check st
     \<and> (\<forall>zipResponse zipBuffer entries.
           main_zip net = Inr zipResponse \<longrightarrow> ok zipResponse \<longrightarrow>
           body zipResponse = Inr zipBuffer \<longrightarrow> loadAsync net zipBuffer = Inr entries \<longrightarrow>
           fetchDocsData net P env st =
             (Inr (batchRecords P (filter isRelevant entries)),
              st\<lparr>docs_data :=
                   Some (Parsed \<lparr>data = batchRecords P (filter isRelevant entries),
                                 sha = getLatestCommitSha net,
                                 timestamp = now env\<rparr>)\<rparr>))"
proof -
  have eq: "fetchDocsData net P env st = fetchFreshData net P env st"
    using assms by (simp add: fetchDocsData_def)
  have keep: "background_checks (snd (fetchDocsData net P env st)) = background_checks st"
    "last_update_check (snd (fetchDocsData net P env st)) = last_update_check st"
    using eq fetchFreshData_keeps_checks [of net P env st] by simp_all
  have "fetchDocsData net P env st =
      (Inr (batchRecords P (filter isRelevant entries)),
       st\<lparr>docs_data := Some (Parsed \<lparr>data = batchRecords P (filter isRelevant entries),
                                        sha = getLatestCommitSha net,
                                        timestamp = now env\<rparr>)\<rparr>)"
    if "main_zip net = Inr zipResponse" "ok zipResponse"
      "body zipResponse = Inr zipBuffer" "loadAsync net zipBuffer = Inr entries"
    for zipResponse zipBuffer entries
    using eq fetchFreshData_success [OF that] by simp
  with eq keep show ?thesis by blast
qed

text \<open>
  C10 at an entry of time 1000 with no Records, read at time 2000 while the network
  serves the example archive: the four Records of the archive are returned and stored.
\<close>

theorem C10_empty_cached_list_is_refetched_witness:
  "getCachedData \<lparr>now = 2000, extensionVersion = ''1.0.1''\<rparr> ex_cached_empty
     = Some \<lparr>data = [], sha = None, timestamp = 1000\<rparr>
   \<and> main_zip ex_net = Inr \<lparr>ok = True, statusText = ''OK'', body = Inr [80, 75, 3, 4]\<rparr>
   \<and> loadAsync ex_net [80, 75, 3, 4] = Inr ex_archive
   \<and> batchRecords ex_parsers (filter isRelevant ex_archive)
       = [ex_part_parent, ex_part_size, ex_part_resize, ex_intro]
   \<and> fetchDocsData ex_net ex_parsers \<lparr>now = 2000, extensionVersion = ''1.0.1''\<rparr> ex_cached_empty
       = (Inr [ex_part_parent, ex_part_size, ex_part_resize, ex_intro],
          \<lparr>docs_data = Some (Parsed \<lparr>data = [ex_part_parent, ex_part_size, ex_part_resize, ex_intro],
                                      sha = Some ''abc123'', timestamp = 2000\<rparr>),
           last_update_check = None, background_checks = []\<rparr>)"
proof -
  have h1: "getCachedData \<lparr>now = 2000, extensionVersion = ''1.0.1''\<rparr> ex_cached_empty
     = Some \<lparr>data = [], sha = None, timestamp = 1000\<rparr>"
    by (simp add: getCachedData_def ex_cached_empty_def cacheExpiry_def)
  have h2: "data \<lparr>data = [], sha = None, timestamp = 1000\<rparr> = []" by simp
  have h3: "main_zip ex_net = Inr \<lparr>ok = True, statusText = ''OK'', body = Inr [80, 75, 3, 4]\<rparr>"
    by (simp add: ex_net_def)
  have h4: "ok \<lparr>ok = True, statusText = ''OK'', body = (Inr [80, 75, 3, 4] :: js_error + buffer)\<rparr>"
    by simp
  have h5: "body \<lparr>ok = True, statusText = ''OK'', body = (Inr [80, 75, 3, 4] :: js_error + buffer)\<rparr>
      = Inr [80, 75, 3, 4]"
    by simp
  have h6: "loadAsync ex_net [80, 75, 3, 4] = Inr ex_archive"
    by (simp add: ex_net_def ex_loadAsync_def)
  have r: "batchRecords ex_parsers (filter isRelevant ex_archive)
       = [ex_part_parent, ex_part_size, ex_part_resize, ex_intro]"
    by code_simp
  have v: "getLatestCommitSha ex_net = Some ''abc123''"
    by (simp add: getLatestCommitSha_def ex_net_def)
  note t = C10_empty_cached_list_is_refetched [OF h1 h2, of ex_net ex_parsers,
      THEN conjunct2, THEN conjunct2, THEN conjunct2, rule_format, OF h3 h4 h5 h6]
  have f: "fetchDocsData ex_net ex_parsers \<lparr>now = 2000, extensionVersion = ''1.0.1''\<rparr> ex_cached_empty
       = (Inr [ex_part_parent, ex_part_size, ex_part_resize, ex_intro],
          \<lparr>docs_data = Some (Parsed \<lparr>data = [ex_part_parent, ex_part_size, ex_part_resize, ex_intro],
                                      sha = Some ''abc123'', timestamp = 2000\<rparr>),
           last_update_check = None, background_checks = []\<rparr>)"
    unfolding t r v by (simp add: ex_cached_empty_def)
  from h1 h3 h6 r f show ?thesis by blast
qed
end
